theory Spec2Isabelle
  imports Complex_Main "HOL-Library.Sublist"
begin

section \<open>JavaScript values\<close>

text \<open>
  Numbers. The source computes with IEEE binary64 numbers. They are idealised here as exact
  reals: rounding and overflow are not represented. \<open>NaN\<close> is kept, because the guards of
  the source (\<open>x || 0\<close>, \<open>val > 0\<close>, \<open>isNaN\<close>) depend on it. The two infinities and the
  negative zero have no counterpart; the only modelled operation that would produce one
  from representable operands is a division by zero, which yields \<open>NaN\<close> here and which
  every call site of the source guards against.
\<close>

datatype jsnum = NaN | Fin real

fun jadd :: "jsnum \<Rightarrow> jsnum \<Rightarrow> jsnum" where
  "jadd (Fin a) (Fin b) = Fin (a + b)"
| "jadd _ _ = NaN"

fun jsub :: "jsnum \<Rightarrow> jsnum \<Rightarrow> jsnum" where
  "jsub (Fin a) (Fin b) = Fin (a - b)"
| "jsub _ _ = NaN"

fun jmul :: "jsnum \<Rightarrow> jsnum \<Rightarrow> jsnum" where
  "jmul (Fin a) (Fin b) = Fin (a * b)"
| "jmul _ _ = NaN"

fun jdiv :: "jsnum \<Rightarrow> jsnum \<Rightarrow> jsnum" where
  "jdiv (Fin a) (Fin b) = (if b = 0 then NaN else Fin (a / b))"
| "jdiv _ _ = NaN"

fun jneg :: "jsnum \<Rightarrow> jsnum" where
  "jneg (Fin a) = Fin (- a)"
| "jneg NaN = NaN"

text \<open>Comparisons: every comparison with \<open>NaN\<close> is false.\<close>

fun jlt :: "jsnum \<Rightarrow> jsnum \<Rightarrow> bool" where
  "jlt (Fin a) (Fin b) = (a < b)"
| "jlt _ _ = False"

fun jle :: "jsnum \<Rightarrow> jsnum \<Rightarrow> bool" where
  "jle (Fin a) (Fin b) = (a \<le> b)"
| "jle _ _ = False"

definition jgt :: "jsnum \<Rightarrow> jsnum \<Rightarrow> bool" where
  "jgt a b = jlt b a"

definition jge :: "jsnum \<Rightarrow> jsnum \<Rightarrow> bool" where
  "jge a b = jle b a"

text \<open>Strict equality \<open>===\<close> on numbers.\<close>

fun jeq :: "jsnum \<Rightarrow> jsnum \<Rightarrow> bool" where
  "jeq (Fin a) (Fin b) = (a = b)"
| "jeq _ _ = False"

fun jfloor :: "jsnum \<Rightarrow> jsnum" where
  "jfloor (Fin a) = Fin (of_int \<lfloor>a\<rfloor>)"
| "jfloor NaN = NaN"

fun jmin :: "jsnum \<Rightarrow> jsnum \<Rightarrow> jsnum" where
  "jmin (Fin a) (Fin b) = Fin (min a b)"
| "jmin _ _ = NaN"

fun jmax :: "jsnum \<Rightarrow> jsnum \<Rightarrow> jsnum" where
  "jmax (Fin a) (Fin b) = Fin (max a b)"
| "jmax _ _ = NaN"

fun isNaN :: "jsnum \<Rightarrow> bool" where
  "isNaN NaN = True"
| "isNaN (Fin _) = False"

text \<open>
  Strings are lists of code units; the model covers the code units U+0000 to U+00FF, one
  \<open>char\<close> each. Values are the primitives the source handles; objects (a record, its
  \<open>_styles\<close>, a raw row) are modelled separately.
\<close>

datatype jsval = Undefined | Null | Bool bool | Num jsnum | Str string

fun num_truthy :: "jsnum \<Rightarrow> bool" where
  "num_truthy NaN = False"
| "num_truthy (Fin a) = (a \<noteq> 0)"

fun truthy :: "jsval \<Rightarrow> bool" where
  "truthy Undefined = False"
| "truthy Null = False"
| "truthy (Bool b) = b"
| "truthy (Num n) = num_truthy n"
| "truthy (Str s) = (s \<noteq> [])"

text \<open>\<open>a || b\<close>\<close>

definition js_or :: "jsval \<Rightarrow> jsval \<Rightarrow> jsval" where
  "js_or a b = (if truthy a then a else b)"

definition num_or :: "jsnum \<Rightarrow> jsnum \<Rightarrow> jsnum" where
  "num_or a b = (if num_truthy a then a else b)"

text \<open>
  \<open>Number(v)\<close> and the implicit conversion of an operand of \<open>-\<close>, \<open>*\<close>, \<open>/\<close> and of a
  comparison. The interface \<open>ProductData\<close> declares the fields these operators read as
  \<open>number\<close> (optional), so the operand is a number or \<open>undefined\<close>; a string there is
  ill-typed, its conversion (and the concatenation \<open>+\<close> would perform) is not modelled, and
  the theorems that go through \<open>ToNumber\<close> exclude it by hypothesis.
\<close>

fun ToNumber :: "jsval \<Rightarrow> jsnum" where
  "ToNumber (Num n) = n"
| "ToNumber Undefined = NaN"
| "ToNumber Null = Fin 0"
| "ToNumber (Bool b) = Fin (if b then 1 else 0)"
| "ToNumber (Str s) = NaN"

definition opt_number :: "jsval \<Rightarrow> bool" where
  "opt_number v = (case v of Num n \<Rightarrow> True | Undefined \<Rightarrow> True | _ \<Rightarrow> False)"

subsection \<open>Characters and \<open>parseFloat\<close>\<close>

definition is_digit :: "char \<Rightarrow> bool" where
  "is_digit c = (c \<in> set ''0123456789'')"

text \<open>The value of a digit is its position in \<open>0123456789\<close>.\<close>

definition digit_val :: "char \<Rightarrow> nat" where
  "digit_val c = length (takeWhile (\<lambda>d. d \<noteq> c) ''0123456789'')"

definition digits_val :: "string \<Rightarrow> nat" where
  "digits_val ds = foldl (\<lambda>a c. 10 * a + digit_val c) 0 ds"

text \<open>White space as \<open>trim\<close> and \<open>parseFloat\<close> see it: TAB, LF, VT, FF, CR, SP, NBSP.\<close>

definition is_space :: "char \<Rightarrow> bool" where
  "is_space c = (c \<in> set [CHR 0x09, CHR 0x0A, CHR 0x0B, CHR 0x0C, CHR 0x0D, CHR '' '', CHR 0xA0])"

text \<open>
  \<open>parseFloat\<close> on a string: leading white space is skipped, then the longest prefix that
  is a decimal literal (sign, digits, fraction, exponent) is read; no digit at all gives
  \<open>NaN\<close>. The literal \<open>Infinity\<close> has no value in this idealisation.
\<close>

definition parse_exponent :: "string \<Rightarrow> int" where
  "parse_exponent s =
     (case s of
        [] \<Rightarrow> 0
      | e # r \<Rightarrow>
          if e = CHR ''e'' \<or> e = CHR ''E'' then
            (case r of
               [] \<Rightarrow> 0
             | g # r' \<Rightarrow>
                 if g = CHR ''-'' then
                   (if takeWhile is_digit r' = [] then 0 else - int (digits_val (takeWhile is_digit r')))
                 else if g = CHR ''+'' then int (digits_val (takeWhile is_digit r'))
                 else int (digits_val (takeWhile is_digit r)))
          else 0)"

definition scale10 :: "real \<Rightarrow> int \<Rightarrow> real" where
  "scale10 m e = (if e < 0 then m / 10 ^ nat (- e) else m * 10 ^ nat e)"

definition parse_unsigned :: "string \<Rightarrow> jsnum" where
  "parse_unsigned s =
     (let ip = takeWhile is_digit s;
          r1 = dropWhile is_digit s;
          fp = (case r1 of [] \<Rightarrow> [] | d # r \<Rightarrow> if d = CHR ''.'' then takeWhile is_digit r else []);
          r2 = (case r1 of [] \<Rightarrow> [] | d # r \<Rightarrow> if d = CHR ''.'' then dropWhile is_digit r else r1)
      in if ip = [] \<and> fp = [] then NaN
         else Fin (scale10 (real (digits_val ip) + real (digits_val fp) / 10 ^ length fp)
                           (parse_exponent r2)))"

definition parseFloat_str :: "string \<Rightarrow> jsnum" where
  "parseFloat_str s =
     (case dropWhile is_space s of
        [] \<Rightarrow> NaN
      | c # r \<Rightarrow>
          if c = CHR ''-'' then jneg (parse_unsigned r)
          else if c = CHR ''+'' then parse_unsigned r
          else parse_unsigned (c # r))"

text \<open>
  \<open>parseFloat(v)\<close> converts its argument to a string first. For a number the string form
  parses back to the same number; \<open>"undefined"\<close>, \<open>"null"\<close>, \<open>"true"\<close> and \<open>"false"\<close> do
  not start with a digit.
\<close>

fun parseFloat :: "jsval \<Rightarrow> jsnum" where
  "parseFloat (Str s) = parseFloat_str s"
| "parseFloat (Num n) = n"
| "parseFloat _ = NaN"

subsection \<open>String operations\<close>

text \<open>
  \<open>String(v)\<close>. The string form of a finite number depends on its binary64 representation
  (the shortest digits that read back as the same double), which an exact real does not
  have. It is therefore a parameter \<open>ts\<close> of every function that may convert a number to a
  string; the theorems hold for every \<open>ts\<close>.
\<close>

fun js_String :: "(real \<Rightarrow> string) \<Rightarrow> jsval \<Rightarrow> string" where
  "js_String ts Undefined = ''undefined''"
| "js_String ts Null = ''null''"
| "js_String ts (Bool b) = (if b then ''true'' else ''false'')"
| "js_String ts (Num NaN) = ''NaN''"
| "js_String ts (Num (Fin x)) = ts x"
| "js_String ts (Str s) = s"

text \<open>
  A concrete string form for closed examples: the decimal digits of a whole number, as
  \<open>Number.prototype.toString\<close> prints one below \<open>10^21\<close>. It is only used at whole numbers.
\<close>

fun nat_digits :: "nat \<Rightarrow> string" where
  "nat_digits n =
     (if n < 10 then [''0123456789'' ! n]
      else nat_digits (n div 10) @ [''0123456789'' ! (n mod 10)])"

declare nat_digits.simps [simp del]

definition whole_toString :: "real \<Rightarrow> string" where
  "whole_toString x =
     (if x < 0 then CHR ''-'' # nat_digits (nat \<lfloor>- x\<rfloor>) else nat_digits (nat \<lfloor>x\<rfloor>))"

text \<open>\<open>toLowerCase\<close> on the code units U+0000 to U+00FF.\<close>

definition upper_units :: string where
  "upper_units = ''ABCDEFGHIJKLMNOPQRSTUVWXYZ'' @
     [CHR 0xC0, CHR 0xC1, CHR 0xC2, CHR 0xC3, CHR 0xC4, CHR 0xC5, CHR 0xC6, CHR 0xC7,
      CHR 0xC8, CHR 0xC9, CHR 0xCA, CHR 0xCB, CHR 0xCC, CHR 0xCD, CHR 0xCE, CHR 0xCF,
      CHR 0xD0, CHR 0xD1, CHR 0xD2, CHR 0xD3, CHR 0xD4, CHR 0xD5, CHR 0xD6,
      CHR 0xD8, CHR 0xD9, CHR 0xDA, CHR 0xDB, CHR 0xDC, CHR 0xDD, CHR 0xDE]"

definition lower_units :: string where
  "lower_units = ''abcdefghijklmnopqrstuvwxyz'' @
     [CHR 0xE0, CHR 0xE1, CHR 0xE2, CHR 0xE3, CHR 0xE4, CHR 0xE5, CHR 0xE6, CHR 0xE7,
      CHR 0xE8, CHR 0xE9, CHR 0xEA, CHR 0xEB, CHR 0xEC, CHR 0xED, CHR 0xEE, CHR 0xEF,
      CHR 0xF0, CHR 0xF1, CHR 0xF2, CHR 0xF3, CHR 0xF4, CHR 0xF5, CHR 0xF6,
      CHR 0xF8, CHR 0xF9, CHR 0xFA, CHR 0xFB, CHR 0xFC, CHR 0xFD, CHR 0xFE]"

definition lower_unit :: "char \<Rightarrow> char" where
  "lower_unit c = (case map_of (zip upper_units lower_units) c of Some l \<Rightarrow> l | None \<Rightarrow> c)"

definition toLowerCase :: "string \<Rightarrow> string" where
  "toLowerCase s = map lower_unit s"

definition trim :: "string \<Rightarrow> string" where
  "trim s = rev (dropWhile is_space (rev (dropWhile is_space s)))"

definition endsWith :: "string \<Rightarrow> string \<Rightarrow> bool" where
  "endsWith s suf = (length suf \<le> length s \<and> drop (length s - length suf) s = suf)"

text \<open>\<open>s.slice(0, -2)\<close>\<close>

definition slice_off2 :: "string \<Rightarrow> string" where
  "slice_off2 s = take (length s - 2) s"

text \<open>\<open>s.replace(/[^0-9.]/g, '')\<close>\<close>

definition keep_digits_dots :: "string \<Rightarrow> string" where
  "keep_digits_dots s = filter (\<lambda>c. is_digit c \<or> c = CHR ''.'') s"

section \<open>Code normalizer (utils.ts)\<close>

definition cleanProductCode :: "(real \<Rightarrow> string) \<Rightarrow> jsval \<Rightarrow> string" where
  "cleanProductCode ts v =
     (if v = Undefined \<or> v = Null \<or> v = Str [] \<or>
         toLowerCase (js_String ts v) = ''nan'' \<or> toLowerCase (js_String ts v) = ''none'' \<or>
         toLowerCase (js_String ts v) = ''null''
      then []
      else let cleaned = trim (js_String ts v)
           in if endsWith cleaned ''.0'' then slice_off2 cleaned else cleaned)"

text \<open>
  The claim's reading of \<open>cleanProductCode\<close>, for comparison: the sentinels are recognised
  after trimming.
\<close>

definition cleanProductCode_trim_first :: "(real \<Rightarrow> string) \<Rightarrow> jsval \<Rightarrow> string" where
  "cleanProductCode_trim_first ts v =
     (let t = trim (js_String ts v)
      in if v = Undefined \<or> v = Null \<or> t = [] \<or>
            toLowerCase t = ''nan'' \<or> toLowerCase t = ''none'' \<or> toLowerCase t = ''null''
         then []
         else if endsWith t ''.0'' then slice_off2 t else t)"

section \<open>Product records\<close>

text \<open>
  \<open>ProductData\<close> is an open bag of fields keyed by strings; an absent key reads as
  \<open>undefined\<close>. The \<open>_styles\<close> object is kept beside the fields: a map from a column name
  to its fill and comment, an absent \<open>_styles\<close> being the empty map.
\<close>

record product =
  bag :: "string \<Rightarrow> jsval"
  styles :: "string \<Rightarrow> (string \<times> string) option"

definition fld :: "product \<Rightarrow> string \<Rightarrow> jsval" where
  "fld p k = bag p k"

definition set_fld :: "string \<Rightarrow> jsval \<Rightarrow> product \<Rightarrow> product" where
  "set_fld k v p = p\<lparr>bag := (bag p)(k := v)\<rparr>"

definition set_style :: "string \<Rightarrow> string \<times> string \<Rightarrow> product \<Rightarrow> product" where
  "set_style k st p = p\<lparr>styles := (styles p)(k \<mapsto> st)\<rparr>"

definition del_style :: "string \<Rightarrow> product \<Rightarrow> product" where
  "del_style k p = p\<lparr>styles := (styles p)(k := None)\<rparr>"

text \<open>A record given by its fields, every other key absent, no \<open>_styles\<close>.\<close>

definition mk_product :: "(string \<times> jsval) list \<Rightarrow> product" where
  "mk_product kvs =
     \<lparr>bag = (\<lambda>k. case map_of kvs k of Some v \<Rightarrow> v | None \<Rightarrow> Undefined), styles = Map.empty\<rparr>"

section \<open>Profitability calculator (processor.ts)\<close>

fun waterfall :: "product \<Rightarrow> string list \<Rightarrow> jsnum option" where
  "waterfall row [] = None"
| "waterfall row (col # cols) =
     (let val = parseFloat (fld row col)
      in if jgt val (Fin 0) then Some val else waterfall row cols)"

definition buybox_columns :: "string list" where
  "buybox_columns = [''Buy Box'', ''Buy Box 30'', ''Buy Box 90'', ''Buy Box 180'']"

definition getBuyBoxWaterfallPrice :: "product \<Rightarrow> jsnum option" where
  "getBuyBoxWaterfallPrice row = waterfall row buybox_columns"

text \<open>\<open>if (bb)\<close>, \<open>if (!price)\<close>: \<open>null\<close>, \<open>0\<close> and \<open>NaN\<close> are falsy.\<close>

definition price_truthy :: "jsnum option \<Rightarrow> bool" where
  "price_truthy p = (case p of None \<Rightarrow> False | Some v \<Rightarrow> num_truthy v)"

definition getSalePrice :: "product \<Rightarrow> jsnum option" where
  "getSalePrice row =
     (let bb = getBuyBoxWaterfallPrice row
      in if price_truthy bb then bb
         else let msrp = parseFloat (fld row ''MSRP'')
              in if jgt msrp (Fin 0) then Some msrp else None)"

definition calculateProfit :: "product \<Rightarrow> jsnum" where
  "calculateProfit row =
     (let price = getSalePrice row;
          cost = jadd (ToNumber (js_or (fld row ''COST'') (Num (Fin 0))))
                      (ToNumber (js_or (fld row ''Pick & Pack'') (Num (Fin 0))))
      in if \<not> price_truthy price then jneg cost
         else let referralFee = ToNumber (js_or (fld row ''Referral Fee &'') (Num (Fin (15 / 100))));
                  rev = jmul (the price) (jsub (Fin 1) referralFee)
              in jsub rev cost)"

definition calculateROI :: "jsnum \<Rightarrow> jsnum \<Rightarrow> jsnum" where
  "calculateROI profit cost =
     (if jeq cost (Fin 0) then Fin 0 else jmul (jdiv profit cost) (Fin 100))"

text \<open>
  The default-fee step of \<open>processGroup\<close> (its "2. Default Assumptions"), applied to one
  item.
\<close>

definition backfill_pick_pack :: "product \<Rightarrow> product" where
  "backfill_pick_pack item =
     (if \<not> truthy (fld item ''Pick & Pack'') \<or> fld item ''Pick & Pack'' = Num (Fin 0)
      then set_style ''Pick & Pack'' (''FFB6B6'', ''Assumed $7.00 fee'')
             (set_fld ''Pick & Pack'' (Num (Fin 7)) item)
      else item)"

definition backfill_referral :: "product \<Rightarrow> product" where
  "backfill_referral item =
     (if \<not> truthy (fld item ''Referral Fee &'') \<or> fld item ''Referral Fee &'' = Num (Fin 0)
      then set_style ''Referral Fee &'' (''FFB6B6'', ''Assumed 15% referral'')
             (set_fld ''Referral Fee &'' (Num (Fin (15 / 100))) item)
      else item)"

definition backfill_fees :: "product \<Rightarrow> product" where
  "backfill_fees item = backfill_referral (backfill_pick_pack item)"

section \<open>Ingestion and deduplication (processor.ts)\<close>

text \<open>
  A raw row is an object whose keys are the headers of its table: an association list with
  distinct keys, an absent key reading as \<open>undefined\<close>. A column mapping is the list of its
  entries (standard name, original header) in insertion order.
\<close>

type_synonym rawrow = "(string \<times> jsval) list"
type_synonym colmap = "(string \<times> string) list"

definition row_get :: "rawrow \<Rightarrow> string \<Rightarrow> jsval" where
  "row_get row k = (case map_of row k of Some v \<Rightarrow> v | None \<Rightarrow> Undefined)"

definition numeric_columns :: "string list" where
  "numeric_columns =
     [''Buy Box'', ''Buy Box 30'', ''Buy Box 90'', ''Buy Box 180'', ''Sales Rank'',
      ''Sales Rank 30'', ''Sales Rank 90'', ''Pick & Pack'', ''Referral Fee &'', ''Rating Count'',
      ''Rating Count - Child'', ''FBA'', ''FBM'', ''AMZ In Stock %'']"

text \<open>The loop \<open>item[standard] = row[original]\<close> over the entries of the mapping.\<close>

definition apply_mapping :: "colmap \<Rightarrow> rawrow \<Rightarrow> product \<Rightarrow> product" where
  "apply_mapping mapping row item0 =
     foldl (\<lambda>item (standard, original). set_fld standard (row_get row original) item) item0 mapping"

text \<open>
  The body of the \<open>forEach\<close> over the numeric columns, in two parts: the parsed value with
  \<open>NaN\<close> replaced by \<open>0\<close>, and the percentage step.
\<close>

definition clean_number :: "(real \<Rightarrow> string) \<Rightarrow> jsval \<Rightarrow> jsnum" where
  "clean_number ts v =
     (let val = parseFloat_str (keep_digits_dots (js_String ts (js_or v (Str []))))
      in if isNaN val then Fin 0 else val)"

definition standardize_pct :: "string \<Rightarrow> jsnum \<Rightarrow> jsnum" where
  "standardize_pct col val =
     (if (col = ''Referral Fee &'' \<or> col = ''AMZ In Stock %'') \<and> jgt val (Fin 1)
      then jdiv val (Fin 100) else val)"

definition sanitize_col :: "(real \<Rightarrow> string) \<Rightarrow> product \<Rightarrow> string \<Rightarrow> product" where
  "sanitize_col ts item col = set_fld col (Num (standardize_pct col (clean_number ts (fld item col)))) item"

definition clean_code_field :: "(real \<Rightarrow> string) \<Rightarrow> product \<Rightarrow> product" where
  "clean_code_field ts item =
     (if truthy (fld item ''Imported by Code'')
      then set_fld ''Imported by Code'' (Str (cleanProductCode ts (fld item ''Imported by Code''))) item
      else item)"

definition sanitize_row :: "(real \<Rightarrow> string) \<Rightarrow> colmap \<Rightarrow> rawrow \<Rightarrow> product" where
  "sanitize_row ts mapping row =
     foldl (sanitize_col ts)
       (clean_code_field ts
          (apply_mapping mapping row (mk_product [(''COST'', Num (Fin 0)), (''MSRP'', Num (Fin 0))])))
       numeric_columns"

definition mapAndSanitize :: "(real \<Rightarrow> string) \<Rightarrow> rawrow list \<Rightarrow> colmap \<Rightarrow> product list" where
  "mapAndSanitize ts data mapping = map (sanitize_row ts mapping) data"

text \<open>
  Step 2 of \<open>processData\<close>: the loop over the records with the set \<open>seenAsins\<close>.
\<close>

fun dedup :: "jsval set \<Rightarrow> product list \<Rightarrow> product list" where
  "dedup seenAsins [] = []"
| "dedup seenAsins (item # rest) =
     (if truthy (fld item ''ASIN'') then
        (if fld item ''ASIN'' \<in> seenAsins then dedup seenAsins rest
         else item # dedup (insert (fld item ''ASIN'') seenAsins) rest)
      else item # dedup seenAsins rest)"

definition removeDuplicates :: "product list \<Rightarrow> product list" where
  "removeDuplicates processed = dedup {} processed"

section \<open>Order builder (orderBuilder.ts)\<close>

text \<open>
  A method call on a value that has no such method raises \<open>TypeError\<close>: here
  \<open>toLowerCase\<close> on an \<open>Amazon Availability\<close> that is not a string.
\<close>

datatype error = TypeError

text \<open>\<open>s.includes(sub)\<close>\<close>

fun str_includes :: "string \<Rightarrow> string \<Rightarrow> bool" where
  "str_includes [] sub = (sub = [])"
| "str_includes (c # s) sub = (prefix sub (c # s) \<or> str_includes s sub)"

text \<open>\<open>s.replace(/[^0-9]/g, '')\<close>, and \<open>parseInt\<close> on such a string.\<close>

definition keep_digits :: "string \<Rightarrow> string" where
  "keep_digits s = filter is_digit s"

definition parseInt_digits :: "string \<Rightarrow> jsnum" where
  "parseInt_digits s = (if s = [] then NaN else Fin (real (digits_val s)))"

text \<open>The predicate of the filter of step 1.\<close>

definition viable :: "product \<Rightarrow> error + bool" where
  "viable p =
     (case js_or (fld p ''Amazon Availability'') (Str []) of
        Str s \<Rightarrow>
          (let amzAvailability = toLowerCase s;
               amzInStock = (str_includes amzAvailability ''in stock'' \<and> str_includes amzAvailability ''shippable'')
           in Inr (if amzInStock then False
                   else if jle (ToNumber (js_or (fld p ''ROI'') (Num (Fin 0)))) (Fin 0) then False
                   else if jle (ToNumber (js_or (fld p ''Profit'') (Num (Fin 0)))) (Fin 0) then False
                   else if jle (ToNumber (js_or (fld p ''COST'') (Num (Fin 0)))) (Fin 0) then False
                   else True))
      | _ \<Rightarrow> Inl TypeError)"

fun filter_candidates :: "product list \<Rightarrow> error + product list" where
  "filter_candidates [] = Inr []"
| "filter_candidates (p # ps) =
     (case viable p of
        Inl e \<Rightarrow> Inl e
      | Inr b \<Rightarrow> (case filter_candidates ps of
                    Inl e \<Rightarrow> Inl e
                  | Inr cs \<Rightarrow> Inr (if b then p # cs else cs)))"

text \<open>
  The fields of a record that the order builder reads as numbers or calls a string method
  on, typed as \<open>ProductData\<close> declares them.
\<close>

definition opt_string :: "jsval \<Rightarrow> bool" where
  "opt_string v = (case v of Str s \<Rightarrow> True | Undefined \<Rightarrow> True | _ \<Rightarrow> False)"

definition order_typed :: "product \<Rightarrow> bool" where
  "order_typed p =
     (opt_string (fld p ''Amazon Availability'') \<and> opt_number (fld p ''ROI'') \<and>
      opt_number (fld p ''Profit'') \<and> opt_number (fld p ''COST''))"

definition badge_text :: "(real \<Rightarrow> string) \<Rightarrow> product \<Rightarrow> string" where
  "badge_text ts p = toLowerCase (js_String ts (js_or (fld p ''Sales Badge'') (Str [])))"

definition sales_rank :: "(real \<Rightarrow> string) \<Rightarrow> product \<Rightarrow> jsnum" where
  "sales_rank ts p =
     num_or (parseInt_digits (keep_digits (js_String ts (js_or (fld p ''Sales Rank'') (Str ''1000000'')))))
            (Fin 1000000)"

definition count_of :: "(real \<Rightarrow> string) \<Rightarrow> product \<Rightarrow> string \<Rightarrow> jsnum" where
  "count_of ts p k =
     num_or (parseInt_digits (keep_digits (js_String ts (js_or (fld p k) (Str ''0''))))) (Fin 0)"

definition score :: "(real \<Rightarrow> string) \<Rightarrow> product \<Rightarrow> jsnum" where
  "score ts p =
     (let badge = badge_text ts p;
          hasBadge = (str_includes badge ''bought'' \<or> length badge > 0);
          score1 = (if hasBadge then jadd (Fin 0) (Fin 10000) else Fin 0);
          rank = sales_rank ts p;
          rankScore = jmax (Fin 0) (jdiv (jsub (Fin 500000) rank) (Fin 100));
          score2 = jadd score1 rankScore;
          reviews = jadd (count_of ts p ''Rating Count'') (count_of ts p ''Rating Count - Child'')
      in jadd score2 (jdiv (jmin reviews (Fin 1000)) (Fin 10)))"

text \<open>
  \<open>Array.prototype.sort\<close> is stable. With a comparator that orders consistently the
  result is the one of a stable insertion sort: an element moves behind a later one only
  when the comparator is positive on the pair.
\<close>

fun insert_by :: "('a \<Rightarrow> 'a \<Rightarrow> jsnum) \<Rightarrow> 'a \<Rightarrow> 'a list \<Rightarrow> 'a list" where
  "insert_by cmp x [] = [x]"
| "insert_by cmp x (y # ys) =
     (if jgt (cmp x y) (Fin 0) then y # insert_by cmp x ys else x # y # ys)"

definition stable_sort_by :: "('a \<Rightarrow> 'a \<Rightarrow> jsnum) \<Rightarrow> 'a list \<Rightarrow> 'a list" where
  "stable_sort_by cmp xs = foldr (insert_by cmp) xs []"

definition by_score_desc :: "product \<times> jsnum \<Rightarrow> product \<times> jsnum \<Rightarrow> jsnum" where
  "by_score_desc a b = jsub (snd b) (snd a)"

definition maxUnits :: "(real \<Rightarrow> string) \<Rightarrow> product \<Rightarrow> jsnum" where
  "maxUnits ts product =
     (if length (badge_text ts product) > 0 then Fin 8
      else if jlt (sales_rank ts product) (Fin 100000) then Fin 4
      else Fin 2)"

text \<open>The pushed object \<open>{...product, Units, TotalCost, EstProfit}\<close>.\<close>

definition order_item :: "product \<Rightarrow> jsnum \<Rightarrow> jsnum \<Rightarrow> product" where
  "order_item product unitsToOrder cost =
     set_fld ''EstProfit'' (Num (jmul unitsToOrder (num_or (ToNumber (fld product ''Profit'')) (Fin 0))))
       (set_fld ''TotalCost'' (Num (jmul unitsToOrder cost))
          (set_fld ''Units'' (Num unitsToOrder) product))"

text \<open>The loop of step 3, from the current spend and the candidates still to walk.\<close>

fun allocate :: "(real \<Rightarrow> string) \<Rightarrow> jsnum \<Rightarrow> jsnum \<Rightarrow> product list \<Rightarrow> product list" where
  "allocate ts budget currentSpend [] = []"
| "allocate ts budget currentSpend (product # rest) =
     (if jge currentSpend budget then []
      else let cost = num_or (ToNumber (fld product ''COST'')) (Fin 0)
           in if jle cost (Fin 0) then allocate ts budget currentSpend rest
              else if jgt (jadd currentSpend cost) budget then allocate ts budget currentSpend rest
              else let remainingBudget = jsub budget currentSpend;
                       affordableUnits = jfloor (jdiv remainingBudget cost);
                       unitsToOrder = jmin (maxUnits ts product) affordableUnits
                   in if jgt unitsToOrder (Fin 0)
                      then order_item product unitsToOrder cost
                             # allocate ts budget (jadd currentSpend (jmul unitsToOrder cost)) rest
                      else allocate ts budget currentSpend rest)"

declare allocate.simps [simp del]

definition generateOrder :: "(real \<Rightarrow> string) \<Rightarrow> product list \<Rightarrow> jsnum \<Rightarrow> error + product list" where
  "generateOrder ts products budget =
     (case filter_candidates products of
        Inl e \<Rightarrow> Inl e
      | Inr candidates \<Rightarrow>
          Inr (allocate ts budget (Fin 0)
                 (map fst (stable_sort_by by_score_desc (map (\<lambda>p. (p, score ts p)) candidates)))))"

text \<open>The sum of a numeric field over the returned order items.\<close>

definition sum_field :: "string \<Rightarrow> product list \<Rightarrow> jsnum" where
  "sum_field k items = foldr (\<lambda>item acc. jadd (ToNumber (fld item k)) acc) items (Fin 0)"

definition total_of :: "string \<Rightarrow> error + product list \<Rightarrow> jsnum" where
  "total_of k result = (case result of Inl e \<Rightarrow> NaN | Inr items \<Rightarrow> sum_field k items)"


section \<open>Cost enrichment (processor.ts, integrateCosts)\<close>

text \<open>\<open>mapping[k] || dflt\<close> on a column mapping.\<close>

definition mapping_or :: "colmap \<Rightarrow> string \<Rightarrow> string \<Rightarrow> string" where
  "mapping_or mapping k dflt = (case map_of mapping k of None \<Rightarrow> dflt | Some h \<Rightarrow> if h = [] then dflt else h)"

definition costKey_of :: "colmap \<Rightarrow> string" where
  "costKey_of mapping = mapping_or mapping ''COST'' ''COST''"

definition msrpKey_of :: "colmap \<Rightarrow> string" where
  "msrpKey_of mapping = mapping_or mapping ''MSRP'' ''MSRP''"

definition costFileUpcKey_of :: "colmap \<Rightarrow> string" where
  "costFileUpcKey_of mapping = mapping_or mapping ''Imported by Code'' ''Imported by Code''"

text \<open>\<open>Object.keys(costData[0] || {})\<close> without the three mapped keys.\<close>

definition extraKeys_of :: "rawrow list \<Rightarrow> colmap \<Rightarrow> string list" where
  "extraKeys_of costData mapping =
     (let costFileHeaders = (case costData of [] \<Rightarrow> [] | row0 # _ \<Rightarrow> map fst row0)
      in filter (\<lambda>h. h \<notin> {costKey_of mapping, msrpKey_of mapping, costFileUpcKey_of mapping})
                costFileHeaders)"

text \<open>\<open>parseFloat(String(v || '0').replace(/[^0-9.]/g, '')) || 0\<close>\<close>

definition cost_amount :: "(real \<Rightarrow> string) \<Rightarrow> jsval \<Rightarrow> jsnum" where
  "cost_amount ts v =
     num_or (parseFloat_str (keep_digits_dots (js_String ts (js_or v (Str ''0''))))) (Fin 0)"

definition row_extras :: "string list \<Rightarrow> rawrow \<Rightarrow> (string \<times> jsval) list" where
  "row_extras extraKeys row =
     map (\<lambda>k. (k, row_get row k))
         (filter (\<lambda>k. row_get row k \<noteq> Undefined \<and> row_get row k \<noteq> Str []) extraKeys)"

text \<open>
  An entry of the cost lookup is \<open>{c, m, extras}\<close>. A row gives no entry when
  \<open>c === 0 && m === 0\<close> and it has no extras (the early \<open>return\<close> of the callback).
\<close>

type_synonym cost_entry = "jsnum \<times> jsnum \<times> (string \<times> jsval) list"

definition cost_row_entry :: "(real \<Rightarrow> string) \<Rightarrow> rawrow list \<Rightarrow> colmap \<Rightarrow> rawrow \<Rightarrow> cost_entry option" where
  "cost_row_entry ts costData mapping row =
     (let c = cost_amount ts (row_get row (costKey_of mapping));
          m = cost_amount ts (row_get row (msrpKey_of mapping));
          extras = row_extras (extraKeys_of costData mapping) row
      in if jeq c (Fin 0) \<and> jeq m (Fin 0) \<and> length extras = 0 then None else Some (c, m, extras))"

text \<open>
  The key under which a row is stored: \<open>cleanProductCode(row[costFileUpcKey])\<close>, when the
  cell and the cleaned code are both truthy.
\<close>

definition cost_row_key :: "(real \<Rightarrow> string) \<Rightarrow> colmap \<Rightarrow> rawrow \<Rightarrow> string option" where
  "cost_row_key ts mapping row =
     (if costFileUpcKey_of mapping \<noteq> [] \<and> truthy (row_get row (costFileUpcKey_of mapping))
      then (let exactCode = cleanProductCode ts (row_get row (costFileUpcKey_of mapping))
            in if exactCode \<noteq> [] then Some exactCode else None)
      else None)"

definition add_cost_row ::
  "(real \<Rightarrow> string) \<Rightarrow> rawrow list \<Rightarrow> colmap \<Rightarrow> (string \<rightharpoonup> cost_entry) \<Rightarrow> rawrow \<Rightarrow> (string \<rightharpoonup> cost_entry)" where
  "add_cost_row ts costData mapping costMap row =
     (case cost_row_entry ts costData mapping row of
        None \<Rightarrow> costMap
      | Some entry \<Rightarrow>
          (case cost_row_key ts mapping row of
             None \<Rightarrow> costMap
           | Some exactCode \<Rightarrow> costMap(exactCode \<mapsto> entry)))"

definition build_costMap :: "(real \<Rightarrow> string) \<Rightarrow> rawrow list \<Rightarrow> colmap \<Rightarrow> (string \<rightharpoonup> cost_entry)" where
  "build_costMap ts costData mapping = foldl (add_cost_row ts costData mapping) Map.empty costData"

text \<open>
  \<open>itemUpc && costMap.get(itemUpc)\<close>: the keys of the lookup are strings, so only a
  non-empty string can hit.
\<close>

definition cost_match :: "(string \<rightharpoonup> cost_entry) \<Rightarrow> product \<Rightarrow> cost_entry option" where
  "cost_match costMap item =
     (case js_or (fld item ''Imported by Code'') (Str []) of
        Str itemUpc \<Rightarrow> if itemUpc \<noteq> [] then costMap itemUpc else None
      | _ \<Rightarrow> None)"

text \<open>\<open>item.COST = (parseFloat(item.COST) || 0) + shipping + misc\<close>\<close>

definition add_overheads :: "jsnum \<Rightarrow> jsnum \<Rightarrow> product \<Rightarrow> product" where
  "add_overheads shipping misc item =
     set_fld ''COST'' (Num (jadd (jadd (num_or (parseFloat (fld item ''COST'')) (Fin 0)) shipping) misc)) item"

text \<open>
  The body of the merge loop for one item. \<open>Object.assign(item, match.extras)\<close> writes the
  extras as fields; a cost-file header named \<open>_styles\<close> is not modelled.
\<close>

definition merge_cost ::
  "(string \<rightharpoonup> cost_entry) \<Rightarrow> rawrow list \<Rightarrow> jsnum \<Rightarrow> jsnum \<Rightarrow> product \<Rightarrow> product" where
  "merge_cost costMap costData shipping misc item =
     (case cost_match costMap item of
        Some (c, m, extras) \<Rightarrow>
          del_style ''COST''
            (foldl (\<lambda>it (k, v). set_fld k v it)
               (set_fld ''MSRP'' (Num m) (set_fld ''COST'' (Num (jadd (jadd c shipping) misc)) item))
               extras)
      | None \<Rightarrow>
          (let item1 = add_overheads shipping misc item
           in if length costData > 0
              then set_style ''COST'' (''FEE2E2'', ''No Cost Found'') item1
              else item1))"

text \<open>
  \<open>integrateCosts\<close>: the records after the merge and the list of extra columns. The
  progress callbacks and the pauses between chunks are not part of the result.
\<close>

definition integrateCosts ::
  "(real \<Rightarrow> string) \<Rightarrow> product list \<Rightarrow> rawrow list option \<Rightarrow> colmap option \<Rightarrow> jsnum \<Rightarrow> jsnum
     \<Rightarrow> product list \<times> string list" where
  "integrateCosts ts processed costData mapping shipping misc =
     (case (costData, mapping) of
        (Some cd, Some mp) \<Rightarrow>
          (map (merge_cost (build_costMap ts cd mp) cd shipping misc) processed, extraKeys_of cd mp)
      | _ \<Rightarrow> (map (add_overheads shipping misc) processed, []))"


section \<open>Column mapper (utils.ts, processor.ts)\<close>

definition is_lower_alnum :: "char \<Rightarrow> bool" where
  "is_lower_alnum c = (c \<in> set ''abcdefghijklmnopqrstuvwxyz'' \<or> is_digit c)"

definition canonicalize :: "string \<Rightarrow> string" where
  "canonicalize str = (if str = [] then [] else filter is_lower_alnum (toLowerCase str))"

text \<open>
  The pattern tables, as the lists of their entries. The truck emoji of three Buy Box
  patterns is two code units above U+00FF; it stands here as two DEL units. The tables are
  only read through \<open>canonicalize\<close>, which deletes either.
\<close>

definition truck :: string where
  "truck = [CHR 0x7F, CHR 0x7F]"

definition COLUMN_PATTERNS :: "(string \<times> string list) list" where
  "COLUMN_PATTERNS =
     [(''Brand'', [''Brand'']),
      (''Parent'', [''Parent ASIN'', ''Parent'']),
      (''ASIN'', [''ASIN'']),
      (''Imported by Code'', [''Imported by Code'', ''Import Code'', ''UPC'', ''GTIN'', ''EAN'',
                              ''Product ID'', ''Barcode'', ''External ID'']),
      (''Title'', [''Title'', ''Product Title'']),
      (''Color'', [''Color'', ''Colour'']),
      (''Size'', [''Size'']),
      (''Sales Badge'', [''Bought in past month'', ''Bought in last month'', ''Sales Badge'']),
      (''Rating Count'', [''Reviews: Rating Count'', ''Rating Count'', ''Total Ratings'']),
      (''Rating Count - Child'', [''Reviews: Review Count - Format Specific'', ''Rating Count - Child'']),
      (''Sales Rank'', [''Sales Rank: Current'', ''Sales Rank'', ''Current Rank'']),
      (''Sales Rank 30'', [''Sales Rank: 30 days avg.'', ''Sales Rank 30'']),
      (''Sales Rank 90'', [''Sales Rank: 90 days avg.'', ''Sales Rank 90'']),
      (''Buy Box'', [''Buy Box '' @ truck @ '': Current'', ''Buy Box'', ''Current Buy Box'']),
      (''Buy Box 30'', [''Buy Box '' @ truck @ '': 30 days avg.'', ''Buy Box 30'']),
      (''Buy Box 90'', [''Buy Box '' @ truck @ '': 90 days avg.'', ''Buy Box 90'']),
      (''Buy Box 180'', [''Buy Box '' @ truck @ '': 180 days avg.'', ''Buy Box 180'']),
      (''AMZ In Stock %'', [''Buy Box: % Amazon 90 days'', ''AMZ In Stock %'']),
      (''Amazon Availability'', [''Amazon: Availability of the Amazon offer'', ''Amazon Availability'']),
      (''FBA'', [''Count of retrieved live offers: New, FBA'', ''FBA'', ''FBA Sellers'']),
      (''FBM'', [''Count of retrieved live offers: New, FBM'', ''FBM'', ''FBM Sellers'']),
      (''Pick & Pack'', [''FBA Pick&Pack Fee'', ''Pick & Pack Fee'', ''Fulfillment Fee'']),
      (''Referral Fee &'', [''Referral Fee %'', ''Referral Fee'']),
      (''In Stock'', [''In Stock'', ''Stock'', ''Quantity'', ''QTY'', ''Available'']),
      (''Sales'', [''Sales'', ''Units Sold'', ''Sold'', ''Monthly Sales''])]"

definition COST_PATTERNS :: "(string \<times> string list) list" where
  "COST_PATTERNS =
     [(''Imported by Code'', [''Imported by Code'', ''Import Code'', ''UPC'', ''GTIN'', ''EAN'',
                              ''Product ID'', ''Barcode'', ''External ID'']),
      (''COST'', [''Cost'', ''Price'', ''Unit Cost'', ''Wholesale Price'', ''WSP'']),
      (''MSRP'', [''MSRP'', ''Retail Price'', ''Retail'', ''RRP''])]"

text \<open>
  \<open>mapping[standard] = original\<close> on an object kept as the list of its entries: an
  existing key keeps its place, a new key goes last.
\<close>

definition obj_set :: "string \<Rightarrow> 'v \<Rightarrow> (string \<times> 'v) list \<Rightarrow> (string \<times> 'v) list" where
  "obj_set k v obj =
     (if k \<in> fst ` set obj then map (\<lambda>(k', v'). if k' = k then (k, v) else (k', v')) obj
      else obj @ [(k, v)])"

text \<open>
  The inner loop of either pass: the first header, in order, that is not used yet and whose
  canonical form matches.
\<close>

definition first_unused :: "string list \<Rightarrow> string list \<Rightarrow> (string \<Rightarrow> bool) \<Rightarrow> string option" where
  "first_unused headers usedKeys matches =
     List.find (\<lambda>original. original \<notin> set usedKeys \<and> matches (canonicalize original)) headers"

fun exact_pass ::
  "string list \<Rightarrow> (string \<times> string list) list \<Rightarrow> colmap \<times> string list \<Rightarrow> colmap \<times> string list" where
  "exact_pass headers [] st = st"
| "exact_pass headers ((standard, patterns) # rest) (mapping, usedKeys) =
     (let canonicalPatterns = map canonicalize patterns
      in case first_unused headers usedKeys (\<lambda>canonical. canonical \<in> set canonicalPatterns) of
           None \<Rightarrow> exact_pass headers rest (mapping, usedKeys)
         | Some original \<Rightarrow>
             exact_pass headers rest (obj_set standard original mapping, original # usedKeys))"

fun partial_pass ::
  "string list \<Rightarrow> (string \<times> string list) list \<Rightarrow> colmap \<times> string list \<Rightarrow> colmap \<times> string list" where
  "partial_pass headers [] st = st"
| "partial_pass headers ((standard, patterns) # rest) (mapping, usedKeys) =
     (if (case map_of mapping standard of None \<Rightarrow> False | Some h \<Rightarrow> h \<noteq> [])
      then partial_pass headers rest (mapping, usedKeys)
      else let canonicalPatterns = map canonicalize patterns
           in case first_unused headers usedKeys
                     (\<lambda>canonical. list_ex (\<lambda>p. str_includes canonical p \<or> str_includes p canonical)
                                           canonicalPatterns) of
                None \<Rightarrow> partial_pass headers rest (mapping, usedKeys)
              | Some original \<Rightarrow>
                  partial_pass headers rest (obj_set standard original mapping, original # usedKeys))"

definition detectColumns :: "string list \<Rightarrow> (string \<times> string list) list \<Rightarrow> colmap" where
  "detectColumns headers patternsMap =
     (if length headers = 0 then []
      else fst (partial_pass headers patternsMap (exact_pass headers patternsMap ([], []))))"


section \<open>Variant logic and calculations (processor.ts, processBrainOptimized)\<close>

text \<open>
  \<open>x.toFixed(2)\<close>: the integer \<open>n\<close> nearest to \<open>100 x\<close> (the larger one on a tie), printed
  with two decimals. Values of \<open>10^21\<close> and more print differently and are left out.
\<close>

definition toFixed2 :: "real \<Rightarrow> string" where
  "toFixed2 x =
     (let n = nat \<lfloor>\<bar>x\<bar> * 100 + 1 / 2\<rfloor>;
          body = nat_digits (n div 100) @ ''.'' @ [''0123456789'' ! (n mod 100 div 10), ''0123456789'' ! (n mod 10)]
      in if x < 0 then CHR ''-'' # body else body)"

text \<open>Strict equality \<open>===\<close> on primitive values.\<close>

fun strict_eq :: "jsval \<Rightarrow> jsval \<Rightarrow> bool" where
  "strict_eq (Num a) (Num b) = jeq a b"
| "strict_eq a b = (a = b)"

definition calculateMargin_buybox :: "product \<Rightarrow> jsnum option \<Rightarrow> jsval" where
  "calculateMargin_buybox row bbPriceUsed =
     (if \<not> price_truthy bbPriceUsed then Str ''No Buybox''
      else let price = the bbPriceUsed;
               referralFee = ToNumber (js_or (fld row ''Referral Fee &'') (Num (Fin (15 / 100))));
               cost = jadd (ToNumber (js_or (fld row ''COST'') (Num (Fin 0))))
                           (ToNumber (js_or (fld row ''Pick & Pack'') (Num (Fin 0))));
               rev = jmul price (jsub (Fin 1) referralFee);
               profit = jsub rev cost
           in Num (jmul (jdiv profit price) (Fin 100)))"

definition calculateMargin_msrp :: "product \<Rightarrow> jsval" where
  "calculateMargin_msrp row =
     (let price = num_or (parseFloat (fld row ''MSRP'')) (Fin 0)
      in if jle price (Fin 0) then Str ''N/A''
         else let referralFee = ToNumber (js_or (fld row ''Referral Fee &'') (Num (Fin (15 / 100))));
                  cost = jadd (ToNumber (js_or (fld row ''COST'') (Num (Fin 0))))
                              (ToNumber (js_or (fld row ''Pick & Pack'') (Num (Fin 0))));
                  rev = jmul price (jsub (Fin 1) referralFee);
                  profit = jsub rev cost
              in Num (jmul (jdiv profit price) (Fin 100)))"

definition calculateMSRPDifference :: "jsnum \<Rightarrow> jsnum option \<Rightarrow> jsval" where
  "calculateMSRPDifference msrp bbPrice =
     (if jle msrp (Fin 0) then Str ''N/A''
      else if \<not> price_truthy bbPrice then Str ''No Buybox''
      else Num (jsub (the bbPrice) msrp))"

text \<open>
  The best variant of a group, as its position in the group (the source compares object
  identity): the winners are the items whose child rating count is the positive maximum,
  sorted by sales rank.
\<close>

definition child_ratings :: "product \<Rightarrow> jsval" where
  "child_ratings r = js_or (fld r ''Rating Count - Child'') (Num (Fin 0))"

definition max_child_ratings :: "product list \<Rightarrow> jsval" where
  "max_child_ratings grp =
     foldl (\<lambda>maxRatings r. if jgt (ToNumber (child_ratings r)) (ToNumber maxRatings)
                             then child_ratings r else maxRatings)
           (Num (Fin 0)) grp"

definition by_sales_rank :: "nat \<times> product \<Rightarrow> nat \<times> product \<Rightarrow> jsnum" where
  "by_sales_rank a b =
     jsub (ToNumber (js_or (fld (snd a) ''Sales Rank'') (Num (Fin 9999999))))
          (ToNumber (js_or (fld (snd b) ''Sales Rank'') (Num (Fin 9999999))))"

definition best_variant :: "product list \<Rightarrow> nat option" where
  "best_variant grp =
     (let maxRatings = max_child_ratings grp;
          winners = filter (\<lambda>(i, r). strict_eq (child_ratings r) maxRatings \<and>
                                      jgt (ToNumber maxRatings) (Fin 0))
                           (zip [0..<length grp] grp)
      in case stable_sort_by by_sales_rank winners of [] \<Rightarrow> None | (i, r) # _ \<Rightarrow> Some i)"

text \<open>The body of the loop over the items of a group.\<close>

definition process_item :: "bool \<Rightarrow> product \<Rightarrow> product" where
  "process_item isBest item0 =
     (let item1 = backfill_fees item0;
          item2 = (if isBest
                   then set_style ''Color'' (''90EE90'', ''Best Variant'')
                          (set_fld ''_isBestVariant'' (Bool True) item1)
                   else item1);
          bbPriceUsed = getBuyBoxWaterfallPrice item2;
          item3 = set_fld ''Price Used For BB Profit''
                    (if price_truthy bbPriceUsed
                     then (case the bbPriceUsed of Fin x \<Rightarrow> Str (toFixed2 x) | NaN \<Rightarrow> Str ''NaN'')
                     else Str ''No Buybox'') item2;
          item4 = set_fld ''Profit'' (Num (calculateProfit item3)) item3;
          item5 = set_fld ''ROI''
                    (Num (calculateROI (ToNumber (fld item4 ''Profit''))
                                       (ToNumber (js_or (fld item4 ''COST'') (Num (Fin 0)))))) item4;
          item6 = set_fld ''Profit Margin (Buybox)'' (calculateMargin_buybox item5 bbPriceUsed) item5;
          item7 = set_fld ''Profit Margin (MSRP)'' (calculateMargin_msrp item6) item6;
          msrp = num_or (parseFloat (fld item7 ''MSRP'')) (Fin 0);
          item8 = set_fld ''MSRP Difference'' (calculateMSRPDifference msrp bbPriceUsed) item7;
          finalPrice = (if price_truthy bbPriceUsed then the bbPriceUsed else Fin 0);
          finalCost = ToNumber (js_or (fld item8 ''COST'') (Num (Fin 0)))
      in set_fld ''Margin Div''
           (if jgt finalCost (Fin 0) \<and> jgt finalPrice (Fin 0)
            then Num (jmul (jdiv finalPrice finalCost) (Fin 100)) else Num (Fin 0))
           item8)"

definition processGroup :: "product list \<Rightarrow> product list" where
  "processGroup grp =
     (let best = best_variant grp
      in map (\<lambda>(i, item). process_item (best = Some i) item) (zip [0..<length grp] grp))"

text \<open>
  The linear scan: a group ends at the last item and wherever the next item has another
  parent. \<open>acc\<close> holds the items from \<open>chunkStart\<close> up to the current one.
\<close>

definition parent_or_unassigned :: "product \<Rightarrow> jsval" where
  "parent_or_unassigned r = js_or (fld r ''Parent'') (Str ''unassigned'')"

fun scan_groups :: "product list \<Rightarrow> product list \<Rightarrow> product list list" where
  "scan_groups acc [] = []"
| "scan_groups acc [x] = [acc @ [x]]"
| "scan_groups acc (x # y # rest) =
     (if \<not> strict_eq (parent_or_unassigned x) (parent_or_unassigned y)
      then (acc @ [x]) # scan_groups [] (y # rest)
      else scan_groups (acc @ [x]) (y # rest))"

definition processBrainOptimized :: "product list \<Rightarrow> product list" where
  "processBrainOptimized processed = concat (map processGroup (scan_groups [] processed))"

section \<open>Rating intelligence (processor.ts, calculateRatingMetricsOptimized)\<close>

text \<open>The four maps of the first pass; \<open>map.get(k) || 0\<close> reads them.\<close>

record rating_maps =
  parentRatingTotals :: "jsval \<Rightarrow> jsnum option"
  parentColorTotals :: "string \<Rightarrow> jsnum option"
  globalColorTotals :: "jsval \<Rightarrow> jsnum option"
  parentUniqueColors :: "jsval \<Rightarrow> string list option"

definition get_or0 :: "('k \<Rightarrow> jsnum option) \<Rightarrow> 'k \<Rightarrow> jsnum" where
  "get_or0 m k = (case m k of None \<Rightarrow> Fin 0 | Some n \<Rightarrow> num_or n (Fin 0))"

definition rating_number :: "(real \<Rightarrow> string) \<Rightarrow> jsval \<Rightarrow> jsnum" where
  "rating_number ts v =
     (case v of Num n \<Rightarrow> n
      | _ \<Rightarrow> num_or (parseFloat_str (js_String ts (js_or v (Str ''0'')))) (Fin 0))"

definition parent_or_unknown :: "product \<Rightarrow> jsval" where
  "parent_or_unknown row = js_or (fld row ''Parent'') (Str ''Unknown'')"

definition color_or_unknown :: "product \<Rightarrow> jsval" where
  "color_or_unknown row = js_or (fld row ''Color'') (Str ''Unknown'')"

definition pcKey_of :: "(real \<Rightarrow> string) \<Rightarrow> product \<Rightarrow> string" where
  "pcKey_of ts row = js_String ts (parent_or_unknown row) @ ''|||'' @ js_String ts (color_or_unknown row)"

definition colorStr_of :: "(real \<Rightarrow> string) \<Rightarrow> product \<Rightarrow> string" where
  "colorStr_of ts row = trim (js_String ts (js_or (fld row ''Color'') (Str [])))"

definition aggregate_row :: "(real \<Rightarrow> string) \<Rightarrow> rating_maps \<Rightarrow> product \<Rightarrow> rating_maps" where
  "aggregate_row ts maps row =
     (let parent = parent_or_unknown row;
          color = color_or_unknown row;
          ratingCount = rating_number ts (fld row ''Rating Count'');
          childRatingCount = rating_number ts (fld row ''Rating Count - Child'');
          maps1 = (if truthy (fld row ''Parent'')
                   then maps\<lparr>parentRatingTotals := (parentRatingTotals maps)
                           (parent \<mapsto> jadd (get_or0 (parentRatingTotals maps) parent) ratingCount)\<rparr>
                   else maps);
          pcKey = pcKey_of ts row;
          maps2 = maps1\<lparr>parentColorTotals := (parentColorTotals maps1)
                           (pcKey \<mapsto> jadd (get_or0 (parentColorTotals maps1) pcKey) childRatingCount)\<rparr>;
          maps3 = maps2\<lparr>globalColorTotals := (globalColorTotals maps2)
                           (color \<mapsto> jadd (get_or0 (globalColorTotals maps2) color) childRatingCount)\<rparr>;
          colorStr = colorStr_of ts row
      in if colorStr \<noteq> [] \<and> truthy (fld row ''Parent'')
         then maps3\<lparr>parentUniqueColors := (parentUniqueColors maps3)
                 (parent \<mapsto> List.insert colorStr
                    (case parentUniqueColors maps3 parent of None \<Rightarrow> [] | Some colors \<Rightarrow> colors))\<rparr>
         else maps3)"

definition max_row :: "(real \<Rightarrow> string) \<Rightarrow> rating_maps \<Rightarrow> (jsval \<Rightarrow> jsnum option) \<Rightarrow> product \<Rightarrow> (jsval \<Rightarrow> jsnum option)" where
  "max_row ts maps parentMaxRatings row =
     (let parent = parent_or_unknown row;
          total = get_or0 (parentColorTotals maps) (pcKey_of ts row);
          currentMax = get_or0 parentMaxRatings parent
      in if jgt total currentMax then parentMaxRatings(parent \<mapsto> total) else parentMaxRatings)"

definition assign_row :: "(real \<Rightarrow> string) \<Rightarrow> rating_maps \<Rightarrow> (jsval \<Rightarrow> jsnum option) \<Rightarrow> product \<Rightarrow> product" where
  "assign_row ts maps parentMaxRatings row0 =
     (let parent = parent_or_unknown row0;
          color = color_or_unknown row0;
          pcKey = pcKey_of ts row0;
          row1 = set_fld ''Total Parent Ratings''
                   (Num (if truthy (fld row0 ''Parent'') then get_or0 (parentRatingTotals maps) parent
                         else rating_number ts (fld row0 ''Rating Count''))) row0;
          row2 = set_fld ''Total Color Ratings'' (Num (get_or0 (parentColorTotals maps) pcKey)) row1;
          row3 = set_fld ''Global Color Popularity'' (Num (get_or0 (globalColorTotals maps) color)) row2;
          colorTotal = ToNumber (js_or (fld row3 ''Total Color Ratings'') (Num (Fin 0)));
          maxForParent = get_or0 parentMaxRatings parent;
          colorStr = colorStr_of ts row3;
          uniqueColorCount = (case parentUniqueColors maps parent of None \<Rightarrow> 0 | Some colors \<Rightarrow> length colors)
      in set_fld ''_isBestColor''
           (Bool (jeq colorTotal maxForParent \<and> jgt maxForParent (Fin 0) \<and> uniqueColorCount > 1 \<and>
                  colorStr \<noteq> []))
           row3)"

definition calculateRatingMetricsOptimized :: "(real \<Rightarrow> string) \<Rightarrow> product list \<Rightarrow> product list" where
  "calculateRatingMetricsOptimized ts data =
     (let maps = foldl (aggregate_row ts)
                   \<lparr>parentRatingTotals = Map.empty, parentColorTotals = Map.empty,
                    globalColorTotals = Map.empty, parentUniqueColors = Map.empty\<rparr> data;
          parentMaxRatings = foldl (max_row ts maps) Map.empty data
      in map (assign_row ts maps parentMaxRatings) data)"

section \<open>The pipeline (processor.ts, processData)\<close>

text \<open>
  The comparator of step 6. \<open>localeCompare\<close> depends on the collation data of the host; it
  is the parameter \<open>lc\<close>.
\<close>

definition by_parent_color ::
  "(real \<Rightarrow> string) \<Rightarrow> (string \<Rightarrow> string \<Rightarrow> jsnum) \<Rightarrow> product \<Rightarrow> product \<Rightarrow> jsnum" where
  "by_parent_color ts lc a b =
     (let parentA = js_String ts (js_or (fld a ''Parent'') (Str []));
          parentB = js_String ts (js_or (fld b ''Parent'') (Str []))
      in if parentA \<noteq> parentB then lc parentA parentB
         else lc (js_String ts (js_or (fld a ''Color'') (Str [])))
                 (js_String ts (js_or (fld b ''Color'') (Str []))))"

text \<open>A concrete comparison for closed examples: by code unit, position by position.\<close>

fun unit_compare :: "string \<Rightarrow> string \<Rightarrow> jsnum" where
  "unit_compare [] [] = Fin 0"
| "unit_compare [] (d # t) = Fin (- 1)"
| "unit_compare (c # s) [] = Fin 1"
| "unit_compare (c # s) (d # t) =
     (if c = d then unit_compare s t
      else if (of_char c :: nat) < of_char d then Fin (- 1) else Fin 1)"

definition is_valid_row :: "product \<Rightarrow> bool" where
  "is_valid_row row =
     (truthy (fld row ''Brand'') \<or> truthy (fld row ''Parent'') \<or> truthy (fld row ''ASIN'') \<or>
      truthy (fld row ''Title''))"

text \<open>
  \<open>processData\<close> called without in-stock data (\<open>inStockSalesData\<close> and \<open>inStockMapping\<close>
  undefined), so that its step 5 is skipped. The result is the list of records and the
  extra cost columns attached to it as \<open>_extraCostColumns\<close>.
\<close>

definition processData ::
  "(real \<Rightarrow> string) \<Rightarrow> (string \<Rightarrow> string \<Rightarrow> jsnum) \<Rightarrow> rawrow list \<Rightarrow> colmap \<Rightarrow>
     rawrow list option \<Rightarrow> colmap option \<Rightarrow> jsnum \<Rightarrow> jsnum \<Rightarrow> product list \<times> string list" where
  "processData ts lc mainData mapping costData costMapping shippingCost miscCost =
     (let processed1 = mapAndSanitize ts mainData mapping;
          processed2 = removeDuplicates processed1;
          processed3 = filter is_valid_row processed2;
          (processed4, extraCols) = integrateCosts ts processed3 costData costMapping shippingCost miscCost;
          processed5 = stable_sort_by (by_parent_color ts lc) processed4;
          processed6 = processBrainOptimized processed5
      in (calculateRatingMetricsOptimized ts processed6, extraCols))"


section \<open>Example inputs\<close>

text \<open>Rows with the five price fields set, for the examples of the waterfall.\<close>

definition waterfall_row :: "real \<Rightarrow> real \<Rightarrow> real \<Rightarrow> real \<Rightarrow> real \<Rightarrow> product" where
  "waterfall_row bb bb30 bb90 bb180 msrp =
     mk_product [(''Buy Box'', Num (Fin bb)), (''Buy Box 30'', Num (Fin bb30)),
                 (''Buy Box 90'', Num (Fin bb90)), (''Buy Box 180'', Num (Fin bb180)),
                 (''MSRP'', Num (Fin msrp))]"

text \<open>Three records: two with ASIN B001 and, between them, one with an empty ASIN.\<close>

definition dedup_example :: "product list" where
  "dedup_example =
     [mk_product [(''ASIN'', Str ''B001''), (''Title'', Str ''first'')],
      mk_product [(''ASIN'', Str ''''), (''Title'', Str ''no asin'')],
      mk_product [(''ASIN'', Str ''B001''), (''Title'', Str ''second'')]]"


text \<open>
  Two candidates without badge and without rank (cap 2 each, equal score): the first costs
  10 with profit 1, the second costs 3 with profit 5.
\<close>

definition cand_a :: product where
  "cand_a = mk_product [(''ASIN'', Str ''A''), (''COST'', Num (Fin 10)), (''Profit'', Num (Fin 1)),
                        (''ROI'', Num (Fin 10)), (''Sales Rank'', Num (Fin 0))]"

definition cand_b :: product where
  "cand_b = mk_product [(''ASIN'', Str ''B''), (''COST'', Num (Fin 3)), (''Profit'', Num (Fin 5)),
                        (''ROI'', Num (Fin (500 / 3))), (''Sales Rank'', Num (Fin 0))]"

definition budget_example :: "product list" where
  "budget_example = [cand_a, cand_b]"

text \<open>
  A cost table of one row with cost 0, an empty MSRP and no further column, the mapping of
  its headers, and a main record carrying the same code.
\<close>

definition zero_cost_row :: rawrow where
  "zero_cost_row = [(''UPC'', Str ''A1''), (''Cost'', Str ''0''), (''MSRP'', Str [])]"

definition zero_cost_mapping :: colmap where
  "zero_cost_mapping = [(''Imported by Code'', ''UPC''), (''COST'', ''Cost''), (''MSRP'', ''MSRP'')]"

definition coded_item :: product where
  "coded_item = mk_product [(''COST'', Num (Fin 0)), (''MSRP'', Num (Fin 0)), (''Imported by Code'', Str ''A1'')]"


text \<open>
  The end-to-end scenario: one main row and one cost row, each table with the headers of
  its row; and the same main row with the identifier column of the cost file added.
\<close>

definition scenario_main :: rawrow where
  "scenario_main =
     [(''ASIN'', Str ''A1''), (''Parent'', Str ''P1''), (''Brand'', Str ''X''), (''Title'', Str ''T1''),
      (''Color'', Str ''Red''), (''Sales Rank'', Str ''50,000''), (''Buy Box'', Str ''$10.00'')]"

definition scenario_cost :: rawrow where
  "scenario_cost = [(''UPC'', Str ''A1''), (''Cost'', Str ''4.00''), (''MSRP'', Str ''15.00'')]"

definition scenario_main_upc :: rawrow where
  "scenario_main_upc = scenario_main @ [(''UPC'', Str ''A1'')]"

definition run_scenario :: "rawrow \<Rightarrow> product list" where
  "run_scenario main =
     fst (processData whole_toString unit_compare [main] (detectColumns (map fst main) COLUMN_PATTERNS)
            (Some [scenario_cost]) (Some (detectColumns (map fst scenario_cost) COST_PATTERNS))
            (Fin 1) (Fin (1 / 2)))"


text \<open>The column mappings that \<open>detectColumns\<close> finds for the three tables of the scenario.\<close>

definition main_map :: colmap where
  "main_map = [(''Brand'', ''Brand''), (''Parent'', ''Parent''), (''ASIN'', ''ASIN''), (''Title'', ''Title''),
    (''Color'', ''Color''), (''Sales Rank'', ''Sales Rank''), (''Buy Box'', ''Buy Box'')]"

definition cost_map :: colmap where
  "cost_map = [(''Imported by Code'', ''UPC''), (''COST'', ''Cost''), (''MSRP'', ''MSRP'')]"

definition main_map_upc :: colmap where
  "main_map_upc = [(''Brand'', ''Brand''), (''Parent'', ''Parent''), (''ASIN'', ''ASIN''),
    (''Imported by Code'', ''UPC''), (''Title'', ''Title''),
    (''Color'', ''Color''), (''Sales Rank'', ''Sales Rank''), (''Buy Box'', ''Buy Box'')]"


section \<open>Properties of the profitability calculator\<close>

lemma waterfall_positive:
  "waterfall row cols = Some v \<Longrightarrow> \<exists>x. v = Fin x \<and> 0 < x"
proof (induction cols)
  case Nil
  then show ?case by simp
next
  case (Cons c cs)
  show ?case
  proof (cases "jgt (parseFloat (fld row c)) (Fin 0)")
    case True
    with Cons.prems have v: "v = parseFloat (fld row c)" by (simp add: Let_def)
    from True show ?thesis unfolding v jgt_def by (cases "parseFloat (fld row c)") auto
  next
    case False
    with Cons show ?thesis by (simp add: Let_def)
  qed
qed

lemma waterfall_find:
  "waterfall row cols = List.find (\<lambda>v. jgt v (Fin 0)) (map (\<lambda>c. parseFloat (fld row c)) cols)"
  by (induction cols) (simp_all add: Let_def)

lemma getSalePrice_positive:
  assumes "getSalePrice row = Some v"
  shows "\<exists>x. v = Fin x \<and> 0 < x"
proof (cases "price_truthy (getBuyBoxWaterfallPrice row)")
  case True
  with assms have "waterfall row buybox_columns = Some v"
    by (simp add: getSalePrice_def getBuyBoxWaterfallPrice_def Let_def)
  then show ?thesis by (rule waterfall_positive)
next
  case False
  with assms have g: "jgt (parseFloat (fld row ''MSRP'')) (Fin 0)" and v: "v = parseFloat (fld row ''MSRP'')"
    by (auto simp: getSalePrice_def Let_def split: if_splits)
  from g show ?thesis unfolding v jgt_def by (cases "parseFloat (fld row ''MSRP'')") auto
qed

lemma backfill_fees_fld:
  "k \<noteq> ''Pick & Pack'' \<Longrightarrow> k \<noteq> ''Referral Fee &'' \<Longrightarrow> fld (backfill_fees item) k = fld item k"
  by (simp add: backfill_fees_def backfill_referral_def backfill_pick_pack_def fld_def set_fld_def set_style_def)

lemma backfill_fees_pick_pack_val:
  "fld (backfill_fees item) ''Pick & Pack'' =
     (if \<not> truthy (fld item ''Pick & Pack'') \<or> fld item ''Pick & Pack'' = Num (Fin 0)
      then Num (Fin 7) else fld item ''Pick & Pack'')"
  by (simp add: backfill_fees_def backfill_referral_def backfill_pick_pack_def fld_def set_fld_def set_style_def)

lemma backfill_fees_referral_val:
  "fld (backfill_fees item) ''Referral Fee &'' =
     (if \<not> truthy (fld item ''Referral Fee &'') \<or> fld item ''Referral Fee &'' = Num (Fin 0)
      then Num (Fin (15 / 100)) else fld item ''Referral Fee &'')"
  by (auto simp: backfill_fees_def backfill_referral_def backfill_pick_pack_def fld_def set_fld_def set_style_def)

lemma opt_number_truthy:
  assumes "opt_number v" and "truthy v"
  shows "\<exists>x. v = Num (Fin x) \<and> x \<noteq> 0"
proof (cases v)
  case (Num n)
  with assms(2) show ?thesis by (cases n) auto
qed (use assms in \<open>auto simp: opt_number_def\<close>)

lemma backfill_fees_pick_pack:
  assumes "opt_number (fld item ''Pick & Pack'')"
  shows "\<exists>pp. fld (backfill_fees item) ''Pick & Pack'' = Num (Fin pp) \<and> pp \<noteq> 0"
proof (cases "truthy (fld item ''Pick & Pack'')")
  case True
  from opt_number_truthy [OF assms True] show ?thesis
    by (auto simp: backfill_fees_pick_pack_val)
next
  case False
  have "(7::real) \<noteq> 0" by simp
  with False show ?thesis unfolding backfill_fees_pick_pack_val by (metis (full_types))
qed

lemma backfill_fees_referral:
  assumes "opt_number (fld item ''Referral Fee &'')"
  shows "\<exists>f. fld (backfill_fees item) ''Referral Fee &'' = Num (Fin f) \<and> f \<noteq> 0"
proof (cases "truthy (fld item ''Referral Fee &'')")
  case True
  from opt_number_truthy [OF assms True] show ?thesis
    by (auto simp: backfill_fees_referral_val)
next
  case False
  have "(15 / 100 ::real) \<noteq> 0" by simp
  with False show ?thesis unfolding backfill_fees_referral_val by (metis (full_types))
qed

text \<open>
  C8. \<open>calculateROI\<close>: for every profit and every cost (numbers), ROI is
  \<open>100 * profit / cost\<close> when the cost is not zero and \<open>0\<close> when it is; the result is a
  number in both cases, the division by zero never being performed.
\<close>

theorem calculateROI_safe:
  "calculateROI (Fin profit) (Fin cost) = Fin (if cost = 0 then 0 else 100 * profit / cost)"
  by (simp add: calculateROI_def)

theorem calculateROI_safe_witness:
  "calculateROI (Fin (- 4)) (Fin (11 / 2)) = Fin (- 800 / 11) \<and> calculateROI (Fin 3) (Fin 0) = Fin 0"
  using calculateROI_safe [of "- 4" "11 / 2"] calculateROI_safe [of 3 0] by simp

text \<open>
  C5. \<open>getSalePrice\<close> returns the first strictly positive value among Buy Box, Buy Box 30,
  Buy Box 90 and Buy Box 180, in that order; when none is positive it returns MSRP if MSRP
  is positive, and no price otherwise. The examples of the claim follow: (0, 0, 12.50, MSRP 20)
  gives 12.50, all Buy Box values 0 with MSRP 20 gives 20, all zero gives no price.
\<close>

theorem getSalePrice_waterfall:
  "getSalePrice row =
     (case List.find (\<lambda>v. jgt v (Fin 0))
             (map (\<lambda>c. parseFloat (fld row c)) [''Buy Box'', ''Buy Box 30'', ''Buy Box 90'', ''Buy Box 180'']) of
        Some v \<Rightarrow> Some v
      | None \<Rightarrow> (if jgt (parseFloat (fld row ''MSRP'')) (Fin 0)
                 then Some (parseFloat (fld row ''MSRP'')) else None))"
proof -
  have w: "getBuyBoxWaterfallPrice row =
      List.find (\<lambda>v. jgt v (Fin 0))
             (map (\<lambda>c. parseFloat (fld row c)) [''Buy Box'', ''Buy Box 30'', ''Buy Box 90'', ''Buy Box 180''])"
    unfolding getBuyBoxWaterfallPrice_def buybox_columns_def by (rule waterfall_find)
  show ?thesis
  proof (cases "getBuyBoxWaterfallPrice row")
    case None
    then show ?thesis using w by (simp add: getSalePrice_def price_truthy_def Let_def)
  next
    case (Some v)
    then have "waterfall row buybox_columns = Some v" by (simp add: getBuyBoxWaterfallPrice_def)
    then obtain x where "v = Fin x" "0 < x" using waterfall_positive by blast
    then have "price_truthy (Some v)" by (simp add: price_truthy_def)
    then show ?thesis using Some w by (simp add: getSalePrice_def Let_def)
  qed
qed

theorem getSalePrice_waterfall_witness:
  "getSalePrice (waterfall_row 0 0 (25 / 2) 0 20) = Some (Fin (25 / 2)) \<and>
   getSalePrice (waterfall_row 0 0 0 0 20) = Some (Fin 20) \<and>
   getSalePrice (waterfall_row 0 0 0 0 0) = None"
  using getSalePrice_waterfall [of "waterfall_row 0 0 (25 / 2) 0 20"]
        getSalePrice_waterfall [of "waterfall_row 0 0 0 0 20"]
        getSalePrice_waterfall [of "waterfall_row 0 0 0 0 0"]
  by (simp add: waterfall_row_def mk_product_def fld_def jgt_def)

text \<open>
  C4. After the fee backfill, \<open>calculateProfit\<close> is
  \<open>price * (1 - referral fee) - (COST + Pick & Pack)\<close> when \<open>getSalePrice\<close> yields a price
  and \<open>- (COST + Pick & Pack)\<close> when it yields none, the fees being those of the record
  after the backfill.
\<close>

theorem calculateProfit_after_backfill:
  assumes cost: "fld item ''COST'' = Num (Fin c)"
    and pp: "opt_number (fld item ''Pick & Pack'')"
    and rf: "opt_number (fld item ''Referral Fee &'')"
  shows "\<exists>pickPack fee.
           fld (backfill_fees item) ''Pick & Pack'' = Num (Fin pickPack) \<and>
           fld (backfill_fees item) ''Referral Fee &'' = Num (Fin fee) \<and>
           calculateProfit (backfill_fees item) =
             (case getSalePrice (backfill_fees item) of
                Some price \<Rightarrow> jsub (jmul price (Fin (1 - fee))) (Fin (c + pickPack))
              | None \<Rightarrow> Fin (- (c + pickPack)))"
proof -
  let ?r = "backfill_fees item"
  obtain p where p: "fld ?r ''Pick & Pack'' = Num (Fin p)" "p \<noteq> 0"
    using backfill_fees_pick_pack [OF pp] by blast
  obtain f where f: "fld ?r ''Referral Fee &'' = Num (Fin f)" "f \<noteq> 0"
    using backfill_fees_referral [OF rf] by blast
  have c: "fld ?r ''COST'' = Num (Fin c)" using cost by (simp add: backfill_fees_fld)
  have "calculateProfit ?r =
             (case getSalePrice ?r of
                Some price \<Rightarrow> jsub (jmul price (Fin (1 - f))) (Fin (c + p))
              | None \<Rightarrow> Fin (- (c + p)))"
  proof (cases "getSalePrice ?r")
    case None
    then show ?thesis using p f c by (simp add: calculateProfit_def price_truthy_def js_or_def Let_def)
  next
    case (Some v)
    then obtain x where "v = Fin x" "0 < x" using getSalePrice_positive by blast
    then show ?thesis using Some p f c by (simp add: calculateProfit_def price_truthy_def js_or_def Let_def)
  qed
  with p f show ?thesis by blast
qed


theorem calculateProfit_after_backfill_witness:
  "fld (mk_product [(''COST'', Num (Fin (11 / 2))), (''Buy Box'', Num (Fin 10))]) ''COST'' = Num (Fin (11 / 2)) \<and>
   opt_number (fld (mk_product [(''COST'', Num (Fin (11 / 2))), (''Buy Box'', Num (Fin 10))]) ''Pick & Pack'') \<and>
   opt_number (fld (mk_product [(''COST'', Num (Fin (11 / 2))), (''Buy Box'', Num (Fin 10))]) ''Referral Fee &'') \<and>
   calculateProfit (backfill_fees (mk_product [(''COST'', Num (Fin (11 / 2))), (''Buy Box'', Num (Fin 10))])) = Fin (- 4)"
proof -
  let ?item = "mk_product [(''COST'', Num (Fin (11 / 2))), (''Buy Box'', Num (Fin 10))]"
  have h1: "fld ?item ''COST'' = Num (Fin (11 / 2))" by (simp add: mk_product_def fld_def)
  have h2: "opt_number (fld ?item ''Pick & Pack'')" by (simp add: mk_product_def fld_def opt_number_def)
  have h3: "opt_number (fld ?item ''Referral Fee &'')" by (simp add: mk_product_def fld_def opt_number_def)
  have pp: "fld (backfill_fees ?item) ''Pick & Pack'' = Num (Fin 7)"
    by (simp add: backfill_fees_pick_pack_val) (simp add: mk_product_def fld_def)
  have rf: "fld (backfill_fees ?item) ''Referral Fee &'' = Num (Fin (15 / 100))"
    by (simp add: backfill_fees_referral_val) (simp add: mk_product_def fld_def)
  have bb: "fld (backfill_fees ?item) ''Buy Box'' = Num (Fin 10)"
    by (simp add: backfill_fees_fld) (simp add: mk_product_def fld_def)
  have price: "getSalePrice (backfill_fees ?item) = Some (Fin 10)"
    by (simp add: getSalePrice_def getBuyBoxWaterfallPrice_def buybox_columns_def bb Let_def
        jgt_def price_truthy_def)
  from calculateProfit_after_backfill [OF h1 h2 h3] pp rf price
  have "calculateProfit (backfill_fees ?item) = Fin (- 4)" by auto
  with h1 h2 h3 show ?thesis by blast
qed

section \<open>Properties of the code normalizer\<close>

lemma endsWith_append: "endsWith s suf \<longleftrightarrow> (\<exists>pre. s = pre @ suf)"
proof
  assume "endsWith s suf"
  then have "s = take (length s - length suf) s @ suf"
    by (metis append_take_drop_id endsWith_def)
  then show "\<exists>pre. s = pre @ suf" ..
next
  assume "\<exists>pre. s = pre @ suf"
  then show "endsWith s suf" by (auto simp: endsWith_def)
qed

lemma slice_off2_append: "slice_off2 (pre @ ''.0'') = pre"
  by (simp add: slice_off2_def)

text \<open>
  C9, as the code has it. \<open>cleanProductCode\<close> returns the empty string when the value is
  \<open>null\<close>, \<open>undefined\<close>, the empty string, or when its string form as given (not trimmed),
  in lower case, is \<open>nan\<close>, \<open>none\<close> or \<open>null\<close>. Otherwise the result is the trimmed string
  form with one trailing \<open>.0\<close> removed if there is one, and the trimmed string form itself
  (case preserved) if there is none.
\<close>

theorem cleanProductCode_behaviour:
  "(v = Undefined \<or> v = Null \<or> v = Str [] \<or>
    toLowerCase (js_String ts v) = ''nan'' \<or> toLowerCase (js_String ts v) = ''none'' \<or>
    toLowerCase (js_String ts v) = ''null''
      \<longrightarrow> cleanProductCode ts v = []) \<and>
   (\<not> (v = Undefined \<or> v = Null \<or> v = Str [] \<or>
    toLowerCase (js_String ts v) = ''nan'' \<or> toLowerCase (js_String ts v) = ''none'' \<or>
    toLowerCase (js_String ts v) = ''null'')
      \<longrightarrow> (\<forall>pre. trim (js_String ts v) = pre @ ''.0'' \<longrightarrow> cleanProductCode ts v = pre) \<and>
          ((\<forall>pre. trim (js_String ts v) \<noteq> pre @ ''.0'') \<longrightarrow> cleanProductCode ts v = trim (js_String ts v)))"
proof (intro conjI impI allI)
  assume "v = Undefined \<or> v = Null \<or> v = Str [] \<or>
    toLowerCase (js_String ts v) = ''nan'' \<or> toLowerCase (js_String ts v) = ''none'' \<or>
    toLowerCase (js_String ts v) = ''null''"
  then show "cleanProductCode ts v = []" unfolding cleanProductCode_def by (simp only: if_True)
next
  fix pre
  assume n: "\<not> (v = Undefined \<or> v = Null \<or> v = Str [] \<or>
    toLowerCase (js_String ts v) = ''nan'' \<or> toLowerCase (js_String ts v) = ''none'' \<or>
    toLowerCase (js_String ts v) = ''null'')"
    and t: "trim (js_String ts v) = pre @ ''.0''"
  have "endsWith (trim (js_String ts v)) ''.0''" using t endsWith_append by blast
  then have "cleanProductCode ts v = slice_off2 (trim (js_String ts v))"
    unfolding cleanProductCode_def using n by (simp only: if_False Let_def if_True)
  then show "cleanProductCode ts v = pre" using t slice_off2_append by simp
next
  assume n: "\<not> (v = Undefined \<or> v = Null \<or> v = Str [] \<or>
    toLowerCase (js_String ts v) = ''nan'' \<or> toLowerCase (js_String ts v) = ''none'' \<or>
    toLowerCase (js_String ts v) = ''null'')"
    and t: "\<forall>pre. trim (js_String ts v) \<noteq> pre @ ''.0''"
  have "\<not> endsWith (trim (js_String ts v)) ''.0''" using t endsWith_append by blast
  then show "cleanProductCode ts v = trim (js_String ts v)"
    unfolding cleanProductCode_def using n by (simp only: if_False Let_def)
qed


theorem cleanProductCode_behaviour_witness:
  "cleanProductCode whole_toString (Str '' 12345.0 '') = ''12345'' \<and>
   cleanProductCode whole_toString (Str ''Ab-1.0.0'') = ''Ab-1.0'' \<and>
   cleanProductCode whole_toString (Str '' aBc '') = ''aBc'' \<and>
   cleanProductCode whole_toString (Str ''NaN'') = [] \<and>
   cleanProductCode whole_toString Null = []"
proof -
  have low: "toLowerCase '' 12345.0 '' = '' 12345.0 ''" "toLowerCase ''Ab-1.0.0'' = ''ab-1.0.0''"
    "toLowerCase '' aBc '' = '' abc ''" "toLowerCase ''NaN'' = ''nan''"
    by (simp_all add: toLowerCase_def lower_unit_def upper_units_def lower_units_def)
  have tr: "trim '' 12345.0 '' = ''12345'' @ ''.0''" "trim ''Ab-1.0.0'' = ''Ab-1.0'' @ ''.0''"
    "trim '' aBc '' = ''aBc''"
    by (simp_all add: trim_def is_space_def)
  have no: "\<forall>pre. trim '' aBc '' \<noteq> pre @ ''.0''"
    unfolding tr by (auto simp: append_eq_Cons_conv)
  show ?thesis
    using cleanProductCode_behaviour [of "Str '' 12345.0 ''" whole_toString]
      cleanProductCode_behaviour [of "Str ''Ab-1.0.0''" whole_toString]
      cleanProductCode_behaviour [of "Str '' aBc ''" whole_toString]
      cleanProductCode_behaviour [of "Str ''NaN''" whole_toString]
      cleanProductCode_behaviour [of Null whole_toString]
      low tr no
    by simp
qed

text \<open>
  The claim places the comparison with the sentinels after the trimming; the code compares
  first. A cell \<open>nan\<close> with a leading space is returned as \<open>nan\<close>, not as the empty string.
\<close>

theorem cleanProductCode_counterexample:
  "cleanProductCode whole_toString (Str '' nan'') = ''nan'' \<and>
   cleanProductCode_trim_first whole_toString (Str '' nan'') = []"
  by (simp add: cleanProductCode_def cleanProductCode_trim_first_def toLowerCase_def lower_unit_def
      upper_units_def lower_units_def trim_def is_space_def endsWith_def slice_off2_def Let_def)

section \<open>Properties of ingestion and deduplication\<close>

lemma scale10_nonneg: "0 \<le> m \<Longrightarrow> 0 \<le> scale10 m e"
  by (simp add: scale10_def)

lemma parse_unsigned_nonneg: "parse_unsigned s = Fin x \<Longrightarrow> 0 \<le> x"
  by (auto simp: parse_unsigned_def Let_def scale10_nonneg split: if_splits)

lemma parseFloat_str_digits_dots:
  assumes "parseFloat_str (keep_digits_dots s) = Fin x"
  shows "0 \<le> x"
proof (cases "dropWhile is_space (keep_digits_dots s)")
  case Nil
  with assms show ?thesis by (simp add: parseFloat_str_def)
next
  case (Cons c r)
  then have "c \<in> set (keep_digits_dots s)"
    by (metis list.set_intros(1) set_dropWhileD)
  then have "is_digit c \<or> c = CHR ''.''" by (simp add: keep_digits_dots_def)
  then have "c \<noteq> CHR ''-''" "c \<noteq> CHR ''+''" by (auto simp: is_digit_def)
  with assms Cons have "parse_unsigned (c # r) = Fin x" by (simp add: parseFloat_str_def)
  then show ?thesis by (rule parse_unsigned_nonneg)
qed

lemma clean_number_nonneg: "\<exists>p. clean_number ts v = Fin p \<and> 0 \<le> p"
proof (cases "parseFloat_str (keep_digits_dots (js_String ts (js_or v (Str []))))")
  case NaN
  then show ?thesis by (simp add: clean_number_def)
next
  case (Fin x)
  then show ?thesis using parseFloat_str_digits_dots [OF Fin] by (simp add: clean_number_def)
qed

lemma fld_set_fld: "fld (set_fld k v p) k' = (if k' = k then v else fld p k')"
  by (simp add: fld_def set_fld_def)

lemma fld_sanitize_col:
  "fld (sanitize_col ts item col) k =
     (if k = col then Num (standardize_pct col (clean_number ts (fld item col))) else fld item k)"
  by (simp add: sanitize_col_def fld_set_fld)

lemma fld_foldl_sanitize_other:
  "k \<notin> set cols \<Longrightarrow> fld (foldl (sanitize_col ts) item cols) k = fld item k"
  by (induction cols arbitrary: item) (auto simp: fld_sanitize_col)

lemma fld_foldl_sanitize:
  "distinct cols \<Longrightarrow> k \<in> set cols \<Longrightarrow>
   fld (foldl (sanitize_col ts) item cols) k = Num (standardize_pct k (clean_number ts (fld item k)))"
proof (induction cols arbitrary: item)
  case Nil
  then show ?case by simp
next
  case (Cons c cs)
  show ?case
  proof (cases "k = c")
    case True
    with Cons.prems have "k \<notin> set cs" by simp
    then show ?thesis using True by (simp add: fld_foldl_sanitize_other fld_sanitize_col)
  next
    case False
    with Cons show ?thesis by (simp add: fld_sanitize_col)
  qed
qed

lemma distinct_numeric_columns: "distinct numeric_columns"
  by (simp add: numeric_columns_def)

lemma fld_clean_code_field:
  "k \<noteq> ''Imported by Code'' \<Longrightarrow> fld (clean_code_field ts item) k = fld item k"
  by (simp add: clean_code_field_def fld_set_fld)

lemma sanitize_row_numeric:
  assumes "k \<in> set numeric_columns"
  shows "fld (sanitize_row ts mapping row) k =
     Num (standardize_pct k (clean_number ts
        (fld (apply_mapping mapping row (mk_product [(''COST'', Num (Fin 0)), (''MSRP'', Num (Fin 0))])) k)))"
proof -
  have "k \<noteq> ''Imported by Code''" using assms by (auto simp: numeric_columns_def)
  then show ?thesis
    unfolding sanitize_row_def
    by (simp add: fld_foldl_sanitize [OF distinct_numeric_columns assms] fld_clean_code_field)
qed

text \<open>
  C3, as the code has it. For each of the two percentage columns, whatever the row and the
  mapping: the cleaned raw value \<open>p\<close> is a number, \<open>p \<ge> 0\<close>; the stored value is \<open>p / 100\<close>
  when \<open>p > 1\<close> and \<open>p\<close> otherwise; it is never negative, and it is at most \<open>1\<close> exactly
  when \<open>p \<le> 100\<close>.
\<close>

theorem percentage_fields_after_ingestion:
  assumes "col = ''Referral Fee &'' \<or> col = ''AMZ In Stock %''" and "i < length data"
  shows "\<exists>p. clean_number ts
               (fld (apply_mapping mapping (data ! i)
                       (mk_product [(''COST'', Num (Fin 0)), (''MSRP'', Num (Fin 0))])) col) = Fin p \<and>
             0 \<le> p \<and>
             fld (mapAndSanitize ts data mapping ! i) col = Num (Fin (if 1 < p then p / 100 else p)) \<and>
             0 \<le> (if 1 < p then p / 100 else p) \<and>
             ((if 1 < p then p / 100 else p) \<le> 1 \<longleftrightarrow> p \<le> 100)"
proof -
  let ?raw = "fld (apply_mapping mapping (data ! i)
                     (mk_product [(''COST'', Num (Fin 0)), (''MSRP'', Num (Fin 0))])) col"
  obtain p where p: "clean_number ts ?raw = Fin p" "0 \<le> p" using clean_number_nonneg by blast
  have mem: "col \<in> set numeric_columns" using assms(1) by (auto simp: numeric_columns_def)
  have row: "mapAndSanitize ts data mapping ! i = sanitize_row ts mapping (data ! i)"
    using assms(2) by (simp add: mapAndSanitize_def)
  have "standardize_pct col (Fin p) = Fin (if 1 < p then p / 100 else p)"
    using assms(1) by (auto simp: standardize_pct_def jgt_def)
  then have "fld (mapAndSanitize ts data mapping ! i) col = Num (Fin (if 1 < p then p / 100 else p))"
    unfolding row using sanitize_row_numeric [OF mem] p by simp
  moreover have "0 \<le> (if 1 < p then p / 100 else p)" using p by simp
  moreover have "(if 1 < p then p / 100 else p) \<le> 1 \<longleftrightarrow> p \<le> 100" by auto
  ultimately show ?thesis using p by blast
qed

theorem percentage_fields_after_ingestion_witness:
  "fld (mapAndSanitize whole_toString [[(''Referral Fee %'', Str ''15'')], [(''Referral Fee %'', Str ''0.15'')]]
          [(''Referral Fee &'', ''Referral Fee %'')] ! 0) ''Referral Fee &'' = Num (Fin (15 / 100)) \<and>
   fld (mapAndSanitize whole_toString [[(''Referral Fee %'', Str ''15'')], [(''Referral Fee %'', Str ''0.15'')]]
          [(''Referral Fee &'', ''Referral Fee %'')] ! 1) ''Referral Fee &'' = Num (Fin (15 / 100))"
proof -
  let ?data = "[[(''Referral Fee %'', Str ''15'')], [(''Referral Fee %'', Str ''0.15'')]]"
  let ?m = "[(''Referral Fee &'', ''Referral Fee %'')]"
  have c1: "clean_number whole_toString
      (fld (apply_mapping ?m (?data ! 0)
         (mk_product [(''COST'', Num (Fin 0)), (''MSRP'', Num (Fin 0))])) ''Referral Fee &'') = Fin 15"
    by (simp add: apply_mapping_def fld_set_fld row_get_def clean_number_def js_or_def
        keep_digits_dots_def is_digit_def parseFloat_str_def is_space_def parse_unsigned_def Let_def
        digits_val_def digit_val_def scale10_def parse_exponent_def)
  have c2: "clean_number whole_toString
      (fld (apply_mapping ?m (?data ! 1)
         (mk_product [(''COST'', Num (Fin 0)), (''MSRP'', Num (Fin 0))])) ''Referral Fee &'') = Fin (15 / 100)"
    by (simp add: apply_mapping_def fld_set_fld row_get_def clean_number_def js_or_def
        keep_digits_dots_def is_digit_def parseFloat_str_def is_space_def parse_unsigned_def Let_def
        digits_val_def digit_val_def scale10_def parse_exponent_def)
  have col: "''Referral Fee &'' = ''Referral Fee &'' \<or> ''Referral Fee &'' = ''AMZ In Stock %''"
    by simp
  have i0: "0 < length ?data" and i1: "1 < length ?data" by simp_all
  obtain p where p: "Fin 15 = Fin p"
      "fld (mapAndSanitize whole_toString ?data ?m ! 0) ''Referral Fee &'' =
         Num (Fin (if 1 < p then p / 100 else p))"
    using percentage_fields_after_ingestion [OF col i0, of whole_toString ?m]
    unfolding c1 by blast
  obtain q where q: "Fin (15 / 100) = Fin q"
      "fld (mapAndSanitize whole_toString ?data ?m ! 1) ''Referral Fee &'' =
         Num (Fin (if 1 < q then q / 100 else q))"
    using percentage_fields_after_ingestion [OF col i1, of whole_toString ?m]
    unfolding c2 by blast
  from p(1) have "p = 15" by simp
  moreover from q(1) have "q = 15 / 100" by simp
  ultimately show ?thesis using p(2) q(2) by simp
qed

text \<open>
  The claim bounds the stored value by \<open>1\<close> for every raw cell. A raw referral-fee cell
  \<open>150\<close> is divided by \<open>100\<close> once and stored as \<open>1.5\<close>.
\<close>

theorem percentage_fields_counterexample:
  "fld (mapAndSanitize whole_toString [[(''Referral Fee %'', Str ''150'')]]
          [(''Referral Fee &'', ''Referral Fee %'')] ! 0) ''Referral Fee &'' = Num (Fin (3 / 2)) \<and>
   \<not> (3 / 2 :: real) \<le> 1"
proof -
  have "''Referral Fee &'' \<in> set numeric_columns" by (simp add: numeric_columns_def)
  then show ?thesis
    by (simp add: mapAndSanitize_def sanitize_row_numeric)
       (simp add: apply_mapping_def fld_set_fld row_get_def clean_number_def js_or_def
        keep_digits_dots_def is_digit_def parseFloat_str_def is_space_def parse_unsigned_def Let_def
        digits_val_def digit_val_def scale10_def parse_exponent_def standardize_pct_def jgt_def)
qed

lemma dedup_nths:
  "dedup seen xs =
     nths xs {i. i < length xs \<and>
                 (\<not> truthy (fld (xs ! i) ''ASIN'') \<or>
                  (fld (xs ! i) ''ASIN'' \<notin> seen \<and> (\<forall>j<i. fld (xs ! j) ''ASIN'' \<noteq> fld (xs ! i) ''ASIN'')))}"
proof (induction xs arbitrary: seen)
  case Nil
  then show ?case by simp
next
  case (Cons x xs)
  let ?a = "\<lambda>r. fld r ''ASIN''"
  let ?A = "{i. i < length (x # xs) \<and>
                 (\<not> truthy (?a ((x # xs) ! i)) \<or>
                  (?a ((x # xs) ! i) \<notin> seen \<and> (\<forall>j<i. ?a ((x # xs) ! j) \<noteq> ?a ((x # xs) ! i))))}"
  let ?B = "\<lambda>s. {i. i < length xs \<and>
                 (\<not> truthy (?a (xs ! i)) \<or>
                  (?a (xs ! i) \<notin> s \<and> (\<forall>j<i. ?a (xs ! j) \<noteq> ?a (xs ! i))))}"
  have zero: "0 \<in> ?A \<longleftrightarrow> (\<not> truthy (?a x) \<or> ?a x \<notin> seen)" by simp
  have all_Suc: "\<And>P i. (\<forall>j<Suc i. P j) \<longleftrightarrow> (P 0 \<and> (\<forall>j<i. P (Suc j)))"
    by (metis less_Suc_eq_0_disj)
  have shift: "{j. Suc j \<in> ?A} =
      {i. i < length xs \<and>
                 (\<not> truthy (?a (xs ! i)) \<or>
                  (?a (xs ! i) \<notin> seen \<and> ?a x \<noteq> ?a (xs ! i) \<and> (\<forall>j<i. ?a (xs ! j) \<noteq> ?a (xs ! i))))}"
    by (simp add: all_Suc)
  show ?case
  proof (cases "truthy (?a x)")
    case False
    have "{j. Suc j \<in> ?A} = ?B seen" unfolding shift using False by auto
    then show ?thesis using False zero Cons.IH [of seen] by (simp add: nths_Cons)
  next
    case True
    show ?thesis
    proof (cases "?a x \<in> seen")
      case True
      have "{j. Suc j \<in> ?A} = ?B seen" unfolding shift using True by auto
      then show ?thesis using True \<open>truthy (?a x)\<close> zero Cons.IH [of seen] by (simp add: nths_Cons)
    next
      case False
      have "{j. Suc j \<in> ?A} = ?B (insert (?a x) seen)" unfolding shift by auto
      then show ?thesis using False \<open>truthy (?a x)\<close> zero Cons.IH [of "insert (?a x) seen"]
        by (simp add: nths_Cons)
    qed
  qed
qed

text \<open>
  C6. Deduplication keeps, in the original order, exactly the records at the positions
  \<open>i\<close> where the ASIN is empty or absent, or where no earlier record has the same ASIN:
  the first record of every non-empty ASIN stays, every later one with that ASIN is dropped,
  and every record without ASIN stays. The example of the claim is the witness.
\<close>

theorem removeDuplicates_keeps_first:
  "removeDuplicates xs =
     nths xs {i. i < length xs \<and>
                 (\<not> truthy (fld (xs ! i) ''ASIN'') \<or>
                  (\<forall>j<i. fld (xs ! j) ''ASIN'' \<noteq> fld (xs ! i) ''ASIN''))}"
  unfolding removeDuplicates_def by (simp add: dedup_nths)

theorem removeDuplicates_keeps_first_witness:
  "removeDuplicates dedup_example =
     [mk_product [(''ASIN'', Str ''B001''), (''Title'', Str ''first'')],
      mk_product [(''ASIN'', Str ''''), (''Title'', Str ''no asin'')]]"
proof -
  have "{i. i < length dedup_example \<and>
                 (\<not> truthy (fld (dedup_example ! i) ''ASIN'') \<or>
                  (\<forall>j<i. fld (dedup_example ! j) ''ASIN'' \<noteq> fld (dedup_example ! i) ''ASIN''))} = {0, 1}"
    (is "?A = _")
  proof -
    have "i \<in> ?A \<longleftrightarrow> i = 0 \<or> i = 1" for i :: nat
    proof -
      consider "i = 0" | "i = 1" | "i = 2" | "i \<ge> 3" by linarith
      then show "i \<in> ?A \<longleftrightarrow> i = 0 \<or> i = 1"
      proof cases
        case 3
        have "\<exists>j<2. fld (dedup_example ! j) ''ASIN'' = fld (dedup_example ! 2) ''ASIN''"
          by (rule exI [of _ 0]) (simp add: dedup_example_def fld_def mk_product_def)
        then show ?thesis using 3 by (auto simp: dedup_example_def fld_def mk_product_def)
      qed (auto simp: dedup_example_def fld_def mk_product_def)
    qed
    then show ?thesis by blast
  qed
  then have "removeDuplicates dedup_example = nths dedup_example {0, 1}"
    using removeDuplicates_keeps_first [of dedup_example] by simp
  then show ?thesis by (simp add: dedup_example_def nths_Cons)
qed


section \<open>Properties of the order builder\<close>

lemma sum_field_Nil: "sum_field k [] = Fin 0"
  by (simp add: sum_field_def)

lemma sum_field_Cons: "sum_field k (x # xs) = jadd (ToNumber (fld x k)) (sum_field k xs)"
  by (simp add: sum_field_def)

lemma fld_order_item:
  "fld (order_item p u c) ''TotalCost'' = Num (jmul u c)"
  "fld (order_item p u c) ''Units'' = Num u"
  "fld (order_item p u c) ''EstProfit'' = Num (jmul u (num_or (ToNumber (fld p ''Profit'')) (Fin 0)))"
  by (simp_all add: order_item_def fld_def set_fld_def)

lemma maxUnits_cases: "maxUnits ts p = Fin 8 \<or> maxUnits ts p = Fin 4 \<or> maxUnits ts p = Fin 2"
  by (simp add: maxUnits_def)

lemma maxUnits_Fin: "\<exists>m. maxUnits ts p = Fin m \<and> 1 \<le> m"
  using maxUnits_cases [of ts p] by auto

lemma floor_quotient_ge1:
  fixes c r :: real
  assumes "0 < c" "c \<le> r"
  shows "1 \<le> real_of_int \<lfloor>r / c\<rfloor>"
proof -
  have "1 \<le> r / c" using assms by simp
  then have "1 \<le> \<lfloor>r / c\<rfloor>" by linarith
  then show ?thesis by simp
qed


lemma allocate_exhausted:
  "B \<le> s \<Longrightarrow> allocate ts (Fin B) (Fin s) ps = []"
  by (cases ps) (simp_all add: allocate.simps jge_def)

lemma allocate_no_cost:
  assumes "num_or (ToNumber (fld p ''COST'')) (Fin 0) = Fin c" "c \<le> 0" "s < B"
  shows "allocate ts (Fin B) (Fin s) (p # ps) = allocate ts (Fin B) (Fin s) ps"
  using assms by (simp add: allocate.simps jge_def Let_def)

lemma num_or_Fin: "\<exists>c. num_or n (Fin 0) = Fin c"
  by (cases n) (simp_all add: num_or_def)

lemma allocate_step:
  assumes cost: "num_or (ToNumber (fld p ''COST'')) (Fin 0) = Fin c" and c: "0 < c"
    and s: "s < B" and m: "maxUnits ts p = Fin m"
  shows "allocate ts (Fin B) (Fin s) (p # ps) =
     (if B < s + c then allocate ts (Fin B) (Fin s) ps
      else order_item p (Fin (min m (of_int \<lfloor>(B - s) / c\<rfloor>))) (Fin c)
             # allocate ts (Fin B) (Fin (s + min m (of_int \<lfloor>(B - s) / c\<rfloor>) * c)) ps)"
proof (cases "B < s + c")
  case True
  then show ?thesis using cost c s by (simp add: allocate.simps jge_def jgt_def Let_def)
next
  case False
  then have "c \<le> B - s" by simp
  then have "1 \<le> real_of_int \<lfloor>(B - s) / c\<rfloor>" using c by (rule floor_quotient_ge1 [rotated])
  moreover have "1 \<le> m" using maxUnits_cases [of ts p] m by auto
  ultimately have "0 < min m (real_of_int \<lfloor>(B - s) / c\<rfloor>)" by simp
  then show ?thesis using False cost c s m by (simp add: allocate.simps jge_def jgt_def Let_def)
qed





lemma filter_candidates_viable:
  "filter_candidates ps = Inr cs \<Longrightarrow> c \<in> set cs \<Longrightarrow> c \<in> set ps \<and> viable c = Inr True"
proof (induction ps arbitrary: cs)
  case Nil
  then show ?case by simp
next
  case (Cons p ps)
  from Cons.prems(1) obtain b cs' where b: "viable p = Inr b" and cs': "filter_candidates ps = Inr cs'"
    and cs: "cs = (if b then p # cs' else cs')"
    by (auto split: sum.splits)
  show ?case
  proof (cases "b \<and> c = p")
    case True
    then show ?thesis using b by simp
  next
    case False
    then have "c \<in> set cs'" using cs Cons.prems(2) by (auto split: if_splits)
    then show ?thesis using Cons.IH [OF cs'] by simp
  qed
qed

lemma viable_profit_positive:
  assumes "viable p = Inr True" and "opt_number (fld p ''Profit'')"
  shows "\<exists>pr. num_or (ToNumber (fld p ''Profit'')) (Fin 0) = Fin pr \<and> 0 < pr"
proof -
  from assms(1) have n: "\<not> jle (ToNumber (js_or (fld p ''Profit'') (Num (Fin 0)))) (Fin 0)"
    by (auto simp: viable_def Let_def split: jsval.splits if_splits)
  show ?thesis
  proof (cases "fld p ''Profit''")
    case (Num x)
    with n show ?thesis by (cases x) (auto simp: js_or_def num_or_def split: if_splits)
  qed (use assms(2) n in \<open>auto simp: opt_number_def js_or_def\<close>)
qed

lemma cand_fields:
  "fld cand_a ''COST'' = Num (Fin 10)" "fld cand_a ''Profit'' = Num (Fin 1)" "fld cand_a ''ROI'' = Num (Fin 10)"
  "fld cand_a ''Sales Rank'' = Num (Fin 0)" "fld cand_a ''Sales Badge'' = Undefined"
  "fld cand_a ''Amazon Availability'' = Undefined" "fld cand_a ''Rating Count'' = Undefined"
  "fld cand_a ''Rating Count - Child'' = Undefined"
  "fld cand_b ''COST'' = Num (Fin 3)" "fld cand_b ''Profit'' = Num (Fin 5)" "fld cand_b ''ROI'' = Num (Fin (500 / 3))"
  "fld cand_b ''Sales Rank'' = Num (Fin 0)" "fld cand_b ''Sales Badge'' = Undefined"
  "fld cand_b ''Amazon Availability'' = Undefined" "fld cand_b ''Rating Count'' = Undefined"
  "fld cand_b ''Rating Count - Child'' = Undefined"
  by (simp_all add: cand_a_def cand_b_def mk_product_def fld_def)

lemma digits_1000000: "parseInt_digits (keep_digits ''1000000'') = Fin 1000000"
  by (simp add: parseInt_digits_def keep_digits_def is_digit_def digits_val_def digit_val_def)

lemma digits_0: "parseInt_digits (keep_digits ''0'') = Fin 0"
  by (simp add: parseInt_digits_def keep_digits_def is_digit_def digits_val_def digit_val_def)

lemma cand_viable: "viable cand_a = Inr True" "viable cand_b = Inr True"
  by (simp_all add: viable_def cand_fields js_or_def toLowerCase_def Let_def)

lemma cand_candidates: "filter_candidates budget_example = Inr budget_example"
  by (simp add: budget_example_def cand_viable)

lemma cand_badge: "badge_text ts cand_a = []" "badge_text ts cand_b = []"
  by (simp_all add: badge_text_def cand_fields js_or_def toLowerCase_def)

lemma cand_rank: "sales_rank ts cand_a = Fin 1000000" "sales_rank ts cand_b = Fin 1000000"
  by (simp_all add: sales_rank_def cand_fields js_or_def digits_1000000 num_or_def)

lemma cand_score: "score ts cand_a = Fin 0" "score ts cand_b = Fin 0"
  by (simp_all add: score_def cand_badge cand_rank count_of_def cand_fields js_or_def digits_0 num_or_def Let_def)

lemma cand_cap: "maxUnits ts cand_a = Fin 2" "maxUnits ts cand_b = Fin 2"
  by (simp_all add: maxUnits_def cand_badge cand_rank)

lemma cand_sorted:
  "map fst (stable_sort_by by_score_desc (map (\<lambda>p. (p, score ts p)) budget_example)) = [cand_a, cand_b]"
  by (simp add: budget_example_def stable_sort_by_def cand_score by_score_desc_def jgt_def)

lemma cand_cost:
  "num_or (ToNumber (fld cand_a ''COST'')) (Fin 0) = Fin 10"
  "num_or (ToNumber (fld cand_b ''COST'')) (Fin 0) = Fin 3"
  by (simp_all add: cand_fields num_or_def)

lemma order_19:
  "generateOrder ts budget_example (Fin 19) =
     Inr [order_item cand_a (Fin 1) (Fin 10), order_item cand_b (Fin 2) (Fin 3)]"
proof -
  have f1: "\<lfloor>(19 - 0) / 10 :: real\<rfloor> = 1" by simp
  have f2: "\<lfloor>(19 - 10) / 3 :: real\<rfloor> = 3" by simp
  have a: "allocate ts (Fin 19) (Fin 0) [cand_a, cand_b] =
      order_item cand_a (Fin 1) (Fin 10) # allocate ts (Fin 19) (Fin 10) [cand_b]"
    by (subst allocate_step [OF cand_cost(1) _ _ cand_cap(1)]) (simp_all only: f1, simp_all)
  have b: "allocate ts (Fin 19) (Fin 10) [cand_b] =
      order_item cand_b (Fin 2) (Fin 3) # allocate ts (Fin 19) (Fin 16) []"
    by (subst allocate_step [OF cand_cost(2) _ _ cand_cap(2)]) (simp_all only: f2, simp_all)
  show ?thesis by (simp add: generateOrder_def cand_candidates cand_sorted a b allocate.simps(1))
qed

lemma order_20:
  "generateOrder ts budget_example (Fin 20) = Inr [order_item cand_a (Fin 2) (Fin 10)]"
proof -
  have f1: "\<lfloor>(20 - 0) / 10 :: real\<rfloor> = 2" by simp
  have a: "allocate ts (Fin 20) (Fin 0) [cand_a, cand_b] =
      order_item cand_a (Fin 2) (Fin 10) # allocate ts (Fin 20) (Fin 20) [cand_b]"
    by (subst allocate_step [OF cand_cost(1) _ _ cand_cap(1)]) (simp_all only: f1, simp_all)
  have b: "allocate ts (Fin 20) (Fin 20) [cand_b] = []" by (rule allocate_exhausted) simp
  show ?thesis by (simp add: generateOrder_def cand_candidates cand_sorted a b)
qed

lemma cand_typed: "order_typed cand_a" "order_typed cand_b"
  by (simp_all add: order_typed_def cand_fields opt_string_def opt_number_def)




text \<open>
  C2 as stated fails: with the two candidates of \<open>budget_example\<close> a budget of 19 buys
  1 + 2 = 3 units with an estimated profit of 11, and the larger budget of 20 buys 2 units
  of the first candidate only, with an estimated profit of 2.
\<close>

theorem budget_monotonicity_counterexample:
  "total_of ''Units'' (generateOrder whole_toString budget_example (Fin 19)) = Fin 3 \<and>
   total_of ''Units'' (generateOrder whole_toString budget_example (Fin 20)) = Fin 2 \<and>
   total_of ''EstProfit'' (generateOrder whole_toString budget_example (Fin 19)) = Fin 11 \<and>
   total_of ''EstProfit'' (generateOrder whole_toString budget_example (Fin 20)) = Fin 2"
  by (simp add: order_19 order_20 total_of_def sum_field_Cons sum_field_Nil fld_order_item cand_fields num_or_def)

lemma stable_sort_by_single: "stable_sort_by cmp [x] = [x]"
  by (simp add: stable_sort_by_def)

lemma allocate_single:
  assumes cost: "num_or (ToNumber (fld p ''COST'')) (Fin 0) = Fin c"
    and pr: "num_or (ToNumber (fld p ''Profit'')) (Fin 0) = Fin pr"
    and m: "maxUnits ts p = Fin m"
  shows "sum_field ''Units'' (allocate ts (Fin B) (Fin 0) [p]) =
           Fin (if 0 < c \<and> c \<le> B then min m (of_int \<lfloor>B / c\<rfloor>) else 0) \<and>
         sum_field ''EstProfit'' (allocate ts (Fin B) (Fin 0) [p]) =
           Fin ((if 0 < c \<and> c \<le> B then min m (of_int \<lfloor>B / c\<rfloor>) else 0) * pr)"
proof (cases "0 < B")
  case False
  then have "allocate ts (Fin B) (Fin 0) [p] = []" by (intro allocate_exhausted) simp
  moreover have "(if 0 < c \<and> c \<le> B then min m (real_of_int \<lfloor>B / c\<rfloor>) else 0) = 0"
    using False by auto
  ultimately show ?thesis by (simp only: sum_field_Nil mult_zero_left simp_thms)
next
  case B: True
  show ?thesis
  proof (cases "0 < c")
    case False
    then have "allocate ts (Fin B) (Fin 0) [p] = allocate ts (Fin B) (Fin 0) []"
      using allocate_no_cost [OF cost _ B] by simp
    then show ?thesis using False by (simp add: allocate.simps(1) sum_field_Nil)
  next
    case c: True
    show ?thesis
    proof (cases "c \<le> B")
      case True
      then show ?thesis using c pr
        by (simp add: allocate_step [OF cost c B m] allocate.simps(1) sum_field_Cons sum_field_Nil
            fld_order_item)
    next
      case False
      then show ?thesis using c
        by (simp add: allocate_step [OF cost c B m] allocate.simps(1) sum_field_Nil)
    qed
  qed
qed

lemma units_mono:
  fixes c m B B' :: real
  assumes "B \<le> B'" "1 \<le> m"
  shows "(if 0 < c \<and> c \<le> B then min m (of_int \<lfloor>B / c\<rfloor>) else 0)
       \<le> (if 0 < c \<and> c \<le> B' then min m (of_int \<lfloor>B' / c\<rfloor>) else 0)"
proof (cases "0 < c \<and> c \<le> B")
  case True
  then have "B / c \<le> B' / c" using assms(1) by (simp add: divide_right_mono)
  then have "\<lfloor>B / c\<rfloor> \<le> \<lfloor>B' / c\<rfloor>" by (rule floor_mono)
  then have "min m (real_of_int \<lfloor>B / c\<rfloor>) \<le> min m (real_of_int \<lfloor>B' / c\<rfloor>)" by simp
  then show ?thesis using True assms(1) by simp
next
  case False
  have "0 \<le> min m (real_of_int \<lfloor>B' / c\<rfloor>)" if "0 < c" "c \<le> B'"
  proof -
    have "0 \<le> B' / c" using that by simp
    then have "0 \<le> \<lfloor>B' / c\<rfloor>" by simp
    then show ?thesis using assms(2) by simp
  qed
  then show ?thesis using False by auto
qed

text \<open>
  C2, as the code has it. When at most one record passes the eligibility filter, a larger
  budget never decreases the total units purchased nor the total estimated profit.
\<close>

theorem generateOrder_single_candidate_monotone:
  assumes typed: "\<forall>p\<in>set products. order_typed p"
    and cands: "filter_candidates products = Inr cs" and one: "length cs \<le> 1"
    and budgets: "B \<le> B'"
  shows "\<exists>u u' e e'.
           total_of ''Units'' (generateOrder ts products (Fin B)) = Fin u \<and>
           total_of ''Units'' (generateOrder ts products (Fin B')) = Fin u' \<and> u \<le> u' \<and>
           total_of ''EstProfit'' (generateOrder ts products (Fin B)) = Fin e \<and>
           total_of ''EstProfit'' (generateOrder ts products (Fin B')) = Fin e' \<and> e \<le> e'"
proof (cases cs)
  case Nil
  then have "generateOrder ts products (Fin b) = Inr []" for b
    using cands by (simp add: generateOrder_def stable_sort_by_def allocate.simps)
  then show ?thesis by (simp add: total_of_def sum_field_Nil)
next
  case (Cons p rest)
  with one have cs: "cs = [p]" by simp
  have gen: "generateOrder ts products (Fin b) = Inr (allocate ts (Fin b) (Fin 0) [p])" for b
    using cands cs by (simp add: generateOrder_def stable_sort_by_single)
  have v: "p \<in> set products" "viable p = Inr True"
    using filter_candidates_viable [OF cands, of p] cs by simp_all
  then have "opt_number (fld p ''Profit'')" using typed by (auto simp: order_typed_def)
  then obtain pr where pr: "num_or (ToNumber (fld p ''Profit'')) (Fin 0) = Fin pr" "0 < pr"
    using viable_profit_positive [OF v(2)] by blast
  obtain c where c: "num_or (ToNumber (fld p ''COST'')) (Fin 0) = Fin c" using num_or_Fin by blast
  obtain m where m: "maxUnits ts p = Fin m" "1 \<le> m" using maxUnits_Fin by blast
  let ?u = "\<lambda>b. (if 0 < c \<and> c \<le> b then min m (of_int \<lfloor>b / c\<rfloor>) else 0)"
  have le: "?u B \<le> ?u B'" using budgets m(2) by (rule units_mono)
  then have le': "?u B * pr \<le> ?u B' * pr" using pr(2) by (intro mult_right_mono) simp_all
  have "total_of ''Units'' (generateOrder ts products (Fin b)) = Fin (?u b)"
       "total_of ''EstProfit'' (generateOrder ts products (Fin b)) = Fin (?u b * pr)" for b
    using allocate_single [OF c pr(1) m(1), of b] by (simp_all add: gen total_of_def)
  then show ?thesis using le le' by blast
qed


theorem generateOrder_single_candidate_monotone_witness:
  "order_typed cand_a \<and> filter_candidates [cand_a] = Inr [cand_a] \<and> length [cand_a] \<le> 1 \<and>
   (19::real) \<le> 20 \<and>
   (\<exists>u u' e e'.
      total_of ''Units'' (generateOrder whole_toString [cand_a] (Fin 19)) = Fin u \<and>
      total_of ''Units'' (generateOrder whole_toString [cand_a] (Fin 20)) = Fin u' \<and> u \<le> u' \<and>
      total_of ''EstProfit'' (generateOrder whole_toString [cand_a] (Fin 19)) = Fin e \<and>
      total_of ''EstProfit'' (generateOrder whole_toString [cand_a] (Fin 20)) = Fin e' \<and> e \<le> e')"
proof -
  have t: "\<forall>p\<in>set [cand_a]. order_typed p" by (simp add: cand_typed)
  have f: "filter_candidates [cand_a] = Inr [cand_a]" by (simp add: cand_viable)
  have l: "length [cand_a] \<le> 1" by simp
  have b: "(19::real) \<le> 20" by simp
  from generateOrder_single_candidate_monotone [OF t f l b, of whole_toString] cand_typed(1) f l b
  show ?thesis by blast
qed


section \<open>Properties of the cost enrichment\<close>

lemma cost_amount_Fin: "\<exists>x. cost_amount ts v = Fin x"
  by (cases "parseFloat_str (keep_digits_dots (js_String ts (js_or v (Str ''0''))))")
     (simp_all add: cost_amount_def num_or_def)

lemma row_extras_empty:
  "row_extras extraKeys row = [] \<longleftrightarrow> (\<forall>k\<in>set extraKeys. row_get row k = Undefined \<or> row_get row k = Str [])"
  by (auto simp: row_extras_def filter_empty_conv)

lemma cost_row_entry_None:
  "cost_row_entry ts costData mapping row = None \<longleftrightarrow>
     (cost_amount ts (row_get row (costKey_of mapping)) = Fin 0 \<and>
      cost_amount ts (row_get row (msrpKey_of mapping)) = Fin 0 \<and>
      (\<forall>k\<in>set (extraKeys_of costData mapping). row_get row k = Undefined \<or> row_get row k = Str []))"
proof -
  obtain x where x: "cost_amount ts (row_get row (costKey_of mapping)) = Fin x"
    using cost_amount_Fin by blast
  obtain y where y: "cost_amount ts (row_get row (msrpKey_of mapping)) = Fin y"
    using cost_amount_Fin by blast
  show ?thesis
    using row_extras_empty [of "extraKeys_of costData mapping" row]
    by (simp add: cost_row_entry_def Let_def x y)
qed

lemma add_cost_row_skipped:
  "cost_row_entry ts costData mapping row = None \<Longrightarrow> add_cost_row ts costData mapping costMap row = costMap"
  by (simp add: add_cost_row_def)

lemma add_cost_row_other:
  "cost_row_key ts mapping row \<noteq> Some k \<Longrightarrow> add_cost_row ts costData mapping costMap row k = costMap k"
  by (auto simp: add_cost_row_def split: option.splits)

lemma foldl_add_cost_row_None:
  "costMap k = None \<Longrightarrow>
   \<forall>row\<in>set rows. cost_row_key ts mapping row = Some k \<longrightarrow> cost_row_entry ts costData mapping row = None \<Longrightarrow>
   foldl (add_cost_row ts costData mapping) costMap rows k = None"
proof (induction rows arbitrary: costMap)
  case Nil
  then show ?case by simp
next
  case (Cons r rs)
  have "add_cost_row ts costData mapping costMap r k = None"
  proof (cases "cost_row_key ts mapping r = Some k")
    case True
    with Cons.prems(2) have "cost_row_entry ts costData mapping r = None" by simp
    then show ?thesis using Cons.prems(1) by (simp add: add_cost_row_skipped)
  next
    case False
    then show ?thesis using Cons.prems(1) by (simp add: add_cost_row_other)
  qed
  then show ?case using Cons.IH Cons.prems(2) by simp
qed

lemma merge_cost_miss:
  assumes "cost_match costMap item = None" and "costData \<noteq> []"
  shows "fld (merge_cost costMap costData shipping misc item) ''COST'' =
           Num (jadd (jadd (num_or (parseFloat (fld item ''COST'')) (Fin 0)) shipping) misc)"
    and "fld (merge_cost costMap costData shipping misc item) ''MSRP'' = fld item ''MSRP''"
    and "styles (merge_cost costMap costData shipping misc item) ''COST'' = Some (''FEE2E2'', ''No Cost Found'')"
  using assms
  by (simp_all add: merge_cost_def add_overheads_def Let_def fld_def set_fld_def set_style_def)

text \<open>
  C10. Let \<open>code\<close> be the identifier of a main record, a cleaned code that occurs as the key
  of some cost-file row, and let every cost-file row with that key have parsed cost 0, parsed
  MSRP 0 and all its extra columns absent or empty. Then the cost lookup has no entry for
  \<open>code\<close>, and the record is treated as a miss: its COST becomes its prior COST plus
  shipping plus misc, its MSRP is unchanged, and its COST cell is flagged
  \<open>No Cost Found\<close>.
\<close>

theorem integrateCosts_skipped_rows_miss:
  assumes rows: "\<forall>row\<in>set costData.
        cost_row_key ts mapping row = Some code \<longrightarrow>
          cost_amount ts (row_get row (costKey_of mapping)) = Fin 0 \<and>
          cost_amount ts (row_get row (msrpKey_of mapping)) = Fin 0 \<and>
          (\<forall>k\<in>set (extraKeys_of costData mapping). row_get row k = Undefined \<or> row_get row k = Str [])"
    and some: "\<exists>row\<in>set costData. cost_row_key ts mapping row = Some code"
    and i: "i < length processed"
    and upc: "fld (processed ! i) ''Imported by Code'' = Str code"
    and prior: "fld (processed ! i) ''COST'' = Num (Fin prior)"
  shows "build_costMap ts costData mapping code = None \<and>
         fld (fst (integrateCosts ts processed (Some costData) (Some mapping) (Fin shipping) (Fin misc)) ! i) ''COST''
           = Num (Fin (prior + shipping + misc)) \<and>
         fld (fst (integrateCosts ts processed (Some costData) (Some mapping) (Fin shipping) (Fin misc)) ! i) ''MSRP''
           = fld (processed ! i) ''MSRP'' \<and>
         styles (fst (integrateCosts ts processed (Some costData) (Some mapping) (Fin shipping) (Fin misc)) ! i) ''COST''
           = Some (''FEE2E2'', ''No Cost Found'')"
proof -
  let ?item = "processed ! i"
  let ?cm = "build_costMap ts costData mapping"
  have none: "?cm code = None"
    unfolding build_costMap_def
    by (rule foldl_add_cost_row_None) (use rows in \<open>simp_all add: cost_row_entry_None\<close>)
  have miss: "cost_match ?cm ?item = None"
    using none upc by (simp add: cost_match_def js_or_def)
  have ne: "costData \<noteq> []" using some by auto
  have res: "fst (integrateCosts ts processed (Some costData) (Some mapping) (Fin shipping) (Fin misc)) ! i
      = merge_cost ?cm costData (Fin shipping) (Fin misc) ?item"
    using i by (simp add: integrateCosts_def)
  have np: "num_or (parseFloat (Num (Fin prior))) (Fin 0) = Fin prior"
    by (simp add: num_or_def)
  show ?thesis
    unfolding res using merge_cost_miss [OF miss ne] none prior np by simp
qed


theorem integrateCosts_skipped_rows_miss_witness:
  "cost_row_key whole_toString zero_cost_mapping zero_cost_row = Some ''A1'' \<and>
   cost_amount whole_toString (row_get zero_cost_row (costKey_of zero_cost_mapping)) = Fin 0 \<and>
   cost_amount whole_toString (row_get zero_cost_row (msrpKey_of zero_cost_mapping)) = Fin 0 \<and>
   extraKeys_of [zero_cost_row] zero_cost_mapping = [] \<and>
   fld ([coded_item] ! 0) ''Imported by Code'' = Str ''A1'' \<and>
   fld ([coded_item] ! 0) ''COST'' = Num (Fin 0) \<and>
   build_costMap whole_toString [zero_cost_row] zero_cost_mapping ''A1'' = None \<and>
   fld (fst (integrateCosts whole_toString [coded_item] (Some [zero_cost_row]) (Some zero_cost_mapping)
              (Fin 1) (Fin (1 / 2))) ! 0) ''COST'' = Num (Fin (3 / 2)) \<and>
   fld (fst (integrateCosts whole_toString [coded_item] (Some [zero_cost_row]) (Some zero_cost_mapping)
              (Fin 1) (Fin (1 / 2))) ! 0) ''MSRP'' = Num (Fin 0) \<and>
   styles (fst (integrateCosts whole_toString [coded_item] (Some [zero_cost_row]) (Some zero_cost_mapping)
              (Fin 1) (Fin (1 / 2))) ! 0) ''COST'' = Some (''FEE2E2'', ''No Cost Found'')"
proof -
  have keys: "costKey_of zero_cost_mapping = ''Cost''" "msrpKey_of zero_cost_mapping = ''MSRP''"
    "costFileUpcKey_of zero_cost_mapping = ''UPC''"
    by (simp_all add: costKey_of_def msrpKey_of_def costFileUpcKey_of_def mapping_or_def zero_cost_mapping_def)
  have cells: "row_get zero_cost_row ''Cost'' = Str ''0''" "row_get zero_cost_row ''MSRP'' = Str []"
    "row_get zero_cost_row ''UPC'' = Str ''A1''"
    by (simp_all add: row_get_def zero_cost_row_def)
  have k: "cost_row_key whole_toString zero_cost_mapping zero_cost_row = Some ''A1''"
    by (simp add: cost_row_key_def keys cells cleanProductCode_def toLowerCase_def lower_unit_def
        upper_units_def lower_units_def trim_def is_space_def endsWith_def Let_def)
  have c: "cost_amount whole_toString (row_get zero_cost_row (costKey_of zero_cost_mapping)) = Fin 0"
    by (simp add: keys cells cost_amount_def js_or_def keep_digits_dots_def is_digit_def
        parseFloat_str_def is_space_def parse_unsigned_def Let_def digits_val_def digit_val_def
        scale10_def parse_exponent_def num_or_def)
  have m: "cost_amount whole_toString (row_get zero_cost_row (msrpKey_of zero_cost_mapping)) = Fin 0"
    by (simp add: keys cells cost_amount_def js_or_def keep_digits_dots_def is_digit_def
        parseFloat_str_def is_space_def parse_unsigned_def Let_def digits_val_def digit_val_def
        scale10_def parse_exponent_def num_or_def)
  have e: "extraKeys_of [zero_cost_row] zero_cost_mapping = []"
    by (simp add: extraKeys_of_def keys zero_cost_row_def)
  have rows: "\<forall>row\<in>set [zero_cost_row].
        cost_row_key whole_toString zero_cost_mapping row = Some ''A1'' \<longrightarrow>
          cost_amount whole_toString (row_get row (costKey_of zero_cost_mapping)) = Fin 0 \<and>
          cost_amount whole_toString (row_get row (msrpKey_of zero_cost_mapping)) = Fin 0 \<and>
          (\<forall>k\<in>set (extraKeys_of [zero_cost_row] zero_cost_mapping).
              row_get row k = Undefined \<or> row_get row k = Str [])"
    using c m e by simp
  have some: "\<exists>row\<in>set [zero_cost_row]. cost_row_key whole_toString zero_cost_mapping row = Some ''A1''"
    using k by simp
  have i: "0 < length [coded_item]" by simp
  have upc: "fld ([coded_item] ! 0) ''Imported by Code'' = Str ''A1''"
    by (simp add: coded_item_def mk_product_def fld_def)
  have prior: "fld ([coded_item] ! 0) ''COST'' = Num (Fin 0)"
    by (simp add: coded_item_def mk_product_def fld_def)
  have msrp: "fld ([coded_item] ! 0) ''MSRP'' = Num (Fin 0)"
    by (simp add: coded_item_def mk_product_def fld_def)
  from integrateCosts_skipped_rows_miss [OF rows some i upc prior, of 1 "1 / 2"] k c m e upc prior msrp
  show ?thesis by simp
qed


section \<open>The end-to-end scenario\<close>

lemma detect_cost: "detectColumns (map fst scenario_cost) COST_PATTERNS = cost_map"
  by code_simp

lemma detect_main: "detectColumns (map fst scenario_main) COLUMN_PATTERNS = main_map"
  by code_simp

lemma detect_main_upc: "detectColumns (map fst scenario_main_upc) COLUMN_PATTERNS = main_map_upc"
  by code_simp

lemma styles_set_fld: "styles (set_fld k v p) = styles p"
  by (simp add: set_fld_def)

lemma fld_set_style: "fld (set_style k st p) k' = fld p k'"
  by (simp add: set_style_def fld_def)

lemma fld_del_style: "fld (del_style k p) k' = fld p k'"
  by (simp add: del_style_def fld_def)

lemma styles_set_style: "styles (set_style k st p) k' = (if k' = k then Some st else styles p k')"
  by (simp add: set_style_def)

lemma fld_mk_product: "fld (mk_product kvs) k = (case map_of kvs k of Some v \<Rightarrow> v | None \<Rightarrow> Undefined)"
  by (simp add: mk_product_def fld_def)

lemma styles_mk_product: "styles (mk_product kvs) = Map.empty"
  by (simp add: mk_product_def)

lemma fld_sanitize_row_other:
  assumes "k \<notin> set numeric_columns" "k \<noteq> ''Imported by Code''"
  shows "fld (sanitize_row ts mapping row) k =
         fld (apply_mapping mapping row (mk_product [(''COST'', Num (Fin 0)), (''MSRP'', Num (Fin 0))])) k"
  unfolding sanitize_row_def using assms by (simp add: fld_foldl_sanitize_other fld_clean_code_field)

lemma fld_sanitize_row_code:
  "fld (sanitize_row ts mapping row) ''Imported by Code'' =
     fld (clean_code_field ts
            (apply_mapping mapping row (mk_product [(''COST'', Num (Fin 0)), (''MSRP'', Num (Fin 0))])))
         ''Imported by Code''"
proof -
  have "''Imported by Code'' \<notin> set numeric_columns" by (simp add: numeric_columns_def)
  then show ?thesis unfolding sanitize_row_def by (simp add: fld_foldl_sanitize_other)
qed

lemmas parse_defs = clean_number_def js_or_def keep_digits_dots_def is_digit_def
        parseFloat_str_def is_space_def parse_unsigned_def Let_def digits_val_def digit_val_def
        scale10_def parse_exponent_def standardize_pct_def jgt_def

lemma mapped_fields:
  "fld (apply_mapping main_map scenario_main (mk_product [(''COST'', Num (Fin 0)), (''MSRP'', Num (Fin 0))])) k =
     (case map_of [(''Buy Box'', Str ''$10.00''), (''Sales Rank'', Str ''50,000''), (''Color'', Str ''Red''),
                   (''Title'', Str ''T1''), (''ASIN'', Str ''A1''), (''Parent'', Str ''P1''), (''Brand'', Str ''X''),
                   (''COST'', Num (Fin 0)), (''MSRP'', Num (Fin 0))] k of Some v \<Rightarrow> v | None \<Rightarrow> Undefined)"
  by (simp add: apply_mapping_def main_map_def scenario_main_def row_get_def fld_set_fld fld_mk_product)

lemma r1_fields:
  "fld (sanitize_row whole_toString main_map scenario_main) ''Buy Box'' = Num (Fin 10)"
  "fld (sanitize_row whole_toString main_map scenario_main) ''Buy Box 30'' = Num (Fin 0)"
  "fld (sanitize_row whole_toString main_map scenario_main) ''Buy Box 90'' = Num (Fin 0)"
  "fld (sanitize_row whole_toString main_map scenario_main) ''Buy Box 180'' = Num (Fin 0)"
  "fld (sanitize_row whole_toString main_map scenario_main) ''Sales Rank'' = Num (Fin 50000)"
  "fld (sanitize_row whole_toString main_map scenario_main) ''Pick & Pack'' = Num (Fin 0)"
  "fld (sanitize_row whole_toString main_map scenario_main) ''Referral Fee &'' = Num (Fin 0)"
  "fld (sanitize_row whole_toString main_map scenario_main) ''Rating Count - Child'' = Num (Fin 0)"
  by (simp_all add: sanitize_row_numeric numeric_columns_def mapped_fields parse_defs)

lemma r1_fields2:
  "fld (sanitize_row whole_toString main_map scenario_main) ''COST'' = Num (Fin 0)"
  "fld (sanitize_row whole_toString main_map scenario_main) ''MSRP'' = Num (Fin 0)"
  "fld (sanitize_row whole_toString main_map scenario_main) ''ASIN'' = Str ''A1''"
  "fld (sanitize_row whole_toString main_map scenario_main) ''Brand'' = Str ''X''"
  "fld (sanitize_row whole_toString main_map scenario_main) ''Parent'' = Str ''P1''"
  by (simp_all add: fld_sanitize_row_other numeric_columns_def mapped_fields)

lemma r1_code:
  "fld (sanitize_row whole_toString main_map scenario_main) ''Imported by Code'' = Undefined"
  by (simp add: fld_sanitize_row_code clean_code_field_def mapped_fields)

lemma merge_cost_miss_other:
  assumes "cost_match costMap item = None" and "k \<noteq> ''COST''"
  shows "fld (merge_cost costMap costData shipping misc item) k = fld item k"
  using assms by (simp add: merge_cost_def add_overheads_def Let_def fld_set_fld fld_set_style)

lemma styles_del_style: "styles (del_style k p) k' = (if k' = k then None else styles p k')"
  by (simp add: del_style_def)

lemma merge_cost_hit:
  assumes "cost_match costMap item = Some (c, m, [])"
  shows "fld (merge_cost costMap costData shipping misc item) k =
           (if k = ''MSRP'' then Num m else if k = ''COST'' then Num (jadd (jadd c shipping) misc)
            else fld item k)"
    and "styles (merge_cost costMap costData shipping misc item) ''COST'' = None"
  using assms by (simp_all add: merge_cost_def fld_set_fld fld_del_style styles_del_style)

lemma fld_assign_row:
  assumes "k \<notin> {''Total Parent Ratings'', ''Total Color Ratings'', ''Global Color Popularity'', ''_isBestColor''}"
  shows "fld (assign_row ts maps pmr row) k = fld row k"
  using assms by (simp add: assign_row_def Let_def fld_set_fld)

lemma styles_assign_row: "styles (assign_row ts maps pmr row) = styles row"
  by (simp add: assign_row_def Let_def styles_set_fld)

lemma fld_backfill_fees:
  "fld (backfill_fees item) k =
     (if k = ''Referral Fee &'' \<and> (\<not> truthy (fld item ''Referral Fee &'') \<or> fld item ''Referral Fee &'' = Num (Fin 0))
      then Num (Fin (15 / 100))
      else if k = ''Pick & Pack'' \<and> (\<not> truthy (fld item ''Pick & Pack'') \<or> fld item ''Pick & Pack'' = Num (Fin 0))
      then Num (Fin 7)
      else fld item k)"
  by (auto simp: backfill_fees_def backfill_referral_def backfill_pick_pack_def fld_set_fld fld_set_style)

lemma styles_backfill_fees:
  "k \<noteq> ''Pick & Pack'' \<Longrightarrow> k \<noteq> ''Referral Fee &'' \<Longrightarrow> styles (backfill_fees item) k = styles item k"
  by (simp add: backfill_fees_def backfill_referral_def backfill_pick_pack_def styles_set_fld styles_set_style)

lemma toFixed2_10: "toFixed2 10 = ''10.00''"
proof -
  have "nat \<lfloor>\<bar>10 :: real\<bar> * 100 + 1 / 2\<rfloor> = 1000" by simp
  then show ?thesis by (simp add: toFixed2_def Let_def nat_digits.simps)
qed

lemma process_item_fields:
  assumes bb: "fld item ''Buy Box'' = Num (Fin bb)" "0 < bb"
    and pp: "fld item ''Pick & Pack'' = Num (Fin 0)"
    and rf: "fld item ''Referral Fee &'' = Num (Fin 0)"
    and c: "fld item ''COST'' = Num (Fin c)" "c \<noteq> 0"
  shows "fld (process_item False item) ''COST'' = Num (Fin c)"
    and "fld (process_item False item) ''MSRP'' = fld item ''MSRP''"
    and "fld (process_item False item) ''Pick & Pack'' = Num (Fin 7)"
    and "fld (process_item False item) ''Referral Fee &'' = Num (Fin (15 / 100))"
    and "fld (process_item False item) ''Price Used For BB Profit'' = Str (toFixed2 bb)"
    and "fld (process_item False item) ''Profit'' = Num (Fin (bb * (1 - 15 / 100) - (c + 7)))"
    and "fld (process_item False item) ''ROI'' = Num (Fin ((bb * (1 - 15 / 100) - (c + 7)) / c * 100))"
    and "styles (process_item False item) ''COST'' = styles item ''COST''"
proof -
  let ?b = "backfill_fees item"
  have b: "fld ?b ''Buy Box'' = Num (Fin bb)" "fld ?b ''Pick & Pack'' = Num (Fin 7)"
    "fld ?b ''Referral Fee &'' = Num (Fin (15 / 100))" "fld ?b ''COST'' = Num (Fin c)"
    "fld ?b ''MSRP'' = fld item ''MSRP''"
    using bb pp rf c by (simp_all add: fld_backfill_fees)
  have w: "getBuyBoxWaterfallPrice ?b = Some (Fin bb)"
    using bb(2) by (simp add: getBuyBoxWaterfallPrice_def buybox_columns_def b jgt_def Let_def)
  have sp: "getSalePrice (set_fld ''Price Used For BB Profit'' v ?b) = Some (Fin bb)" for v
    using bb(2) by (simp add: getSalePrice_def getBuyBoxWaterfallPrice_def buybox_columns_def
        fld_set_fld b jgt_def price_truthy_def Let_def)
  have pr: "calculateProfit (set_fld ''Price Used For BB Profit'' v ?b) = Fin (bb * (1 - 15 / 100) - (c + 7))" for v
    using bb(2) c(2) by (simp add: calculateProfit_def sp price_truthy_def fld_set_fld b js_or_def Let_def)
  have pt: "price_truthy (Some (Fin bb))" using bb(2) by (simp add: price_truthy_def)
  show "fld (process_item False item) ''COST'' = Num (Fin c)"
    "fld (process_item False item) ''MSRP'' = fld item ''MSRP''"
    "fld (process_item False item) ''Pick & Pack'' = Num (Fin 7)"
    "fld (process_item False item) ''Referral Fee &'' = Num (Fin (15 / 100))"
    "fld (process_item False item) ''Price Used For BB Profit'' = Str (toFixed2 bb)"
    "fld (process_item False item) ''Profit'' = Num (Fin (bb * (1 - 15 / 100) - (c + 7)))"
    "styles (process_item False item) ''COST'' = styles item ''COST''"
    by (simp_all add: process_item_def Let_def w pt fld_set_fld b pr styles_set_fld styles_backfill_fees)
  show "fld (process_item False item) ''ROI'' = Num (Fin ((bb * (1 - 15 / 100) - (c + 7)) / c * 100))"
    using c(2) by (simp add: process_item_def Let_def w pt fld_set_fld b pr calculateROI_def js_or_def)
qed

lemma best_variant_single_unrated:
  assumes "fld item ''Rating Count - Child'' = Num (Fin 0)"
  shows "best_variant [item] = None"
  using assms
  by (simp add: best_variant_def max_child_ratings_def child_ratings_def js_or_def jgt_def
      stable_sort_by_def Let_def)

lemma processBrainOptimized_single:
  "processBrainOptimized [item] = [process_item (best_variant [item] = Some 0) item]"
  by (simp add: processBrainOptimized_def processGroup_def Let_def)

lemma calculateRatingMetricsOptimized_single:
  "\<exists>maps pmr. calculateRatingMetricsOptimized ts [item] = [assign_row ts maps pmr item]"
  by (simp add: calculateRatingMetricsOptimized_def Let_def) blast

lemma removeDuplicates_single: "removeDuplicates [item] = [item]"
  by (simp add: removeDuplicates_def)

lemma processData_single:
  assumes "is_valid_row (sanitize_row ts mapping row)"
    and "fld (merge_cost (build_costMap ts cd cm) cd sh mi (sanitize_row ts mapping row)) ''Rating Count - Child'' = Num (Fin 0)"
  shows "\<exists>maps pmr. fst (processData ts lc [row] mapping (Some cd) (Some cm) sh mi) =
     [assign_row ts maps pmr (process_item False (merge_cost (build_costMap ts cd cm) cd sh mi (sanitize_row ts mapping row)))]"
proof -
  let ?r2 = "merge_cost (build_costMap ts cd cm) cd sh mi (sanitize_row ts mapping row)"
  obtain maps pmr where "calculateRatingMetricsOptimized ts [process_item False ?r2] =
      [assign_row ts maps pmr (process_item False ?r2)]"
    using calculateRatingMetricsOptimized_single by blast
  then have "fst (processData ts lc [row] mapping (Some cd) (Some cm) sh mi) =
     [assign_row ts maps pmr (process_item False ?r2)]"
    using assms
    by (simp add: processData_def mapAndSanitize_def removeDuplicates_single integrateCosts_def
        stable_sort_by_single processBrainOptimized_single best_variant_single_unrated Let_def)
  then show ?thesis by blast
qed

lemma scenario_miss:
  "cost_match costMap (sanitize_row whole_toString main_map scenario_main) = None"
  by (simp add: cost_match_def r1_code js_or_def)

lemma scenario_result:
  "\<exists>r. fst (processData whole_toString unit_compare [scenario_main] main_map
               (Some [scenario_cost]) (Some cost_map) (Fin 1) (Fin (1 / 2))) = [r] \<and>
       fld r ''COST'' = Num (Fin (3 / 2)) \<and>
       fld r ''MSRP'' = Num (Fin 0) \<and>
       styles r ''COST'' = Some (''FEE2E2'', ''No Cost Found'') \<and>
       fld r ''Price Used For BB Profit'' = Str ''10.00'' \<and>
       fld r ''Referral Fee &'' = Num (Fin (15 / 100)) \<and>
       fld r ''Pick & Pack'' = Num (Fin 7) \<and>
       fld r ''Profit'' = Num (Fin 0) \<and>
       fld r ''ROI'' = Num (Fin 0)"
proof -
  let ?r1 = "sanitize_row whole_toString main_map scenario_main"
  let ?cm = "build_costMap whole_toString [scenario_cost] cost_map"
  let ?r2 = "merge_cost ?cm [scenario_cost] (Fin 1) (Fin (1 / 2)) ?r1"
  have miss: "cost_match ?cm ?r1 = None" by (rule scenario_miss)
  have ne: "[scenario_cost] \<noteq> []" by simp
  have valid: "is_valid_row ?r1" by (simp add: is_valid_row_def r1_fields2)
  have r2: "fld ?r2 ''Buy Box'' = Num (Fin 10)" "fld ?r2 ''Pick & Pack'' = Num (Fin 0)"
    "fld ?r2 ''Referral Fee &'' = Num (Fin 0)" "fld ?r2 ''Rating Count - Child'' = Num (Fin 0)"
    "fld ?r2 ''MSRP'' = Num (Fin 0)"
    by (simp_all add: merge_cost_miss_other [OF miss] r1_fields r1_fields2)
  have cost: "fld ?r2 ''COST'' = Num (Fin (3 / 2))"
    by (simp add: merge_cost_miss(1) [OF miss ne] r1_fields2 num_or_def)
  have flag: "styles ?r2 ''COST'' = Some (''FEE2E2'', ''No Cost Found'')"
    by (rule merge_cost_miss(3) [OF miss ne])
  have pos: "(0::real) < 10" "(3 / 2 :: real) \<noteq> 0" by simp_all
  note pf = process_item_fields [OF r2(1) pos(1) r2(2) r2(3) cost pos(2)]
  obtain maps pmr where res:
    "fst (processData whole_toString unit_compare [scenario_main] main_map
               (Some [scenario_cost]) (Some cost_map) (Fin 1) (Fin (1 / 2))) =
     [assign_row whole_toString maps pmr (process_item False ?r2)]"
    using processData_single [OF valid r2(4)] by blast
  show ?thesis
    unfolding res
    by (simp add: fld_assign_row styles_assign_row pf r2 flag toFixed2_10)
qed

lemma r1u_mapped_fields:
  "fld (apply_mapping main_map_upc scenario_main_upc (mk_product [(''COST'', Num (Fin 0)), (''MSRP'', Num (Fin 0))])) k =
     (case map_of [(''Buy Box'', Str ''$10.00''), (''Sales Rank'', Str ''50,000''), (''Color'', Str ''Red''),
                   (''Title'', Str ''T1''), (''Imported by Code'', Str ''A1''), (''ASIN'', Str ''A1''),
                   (''Parent'', Str ''P1''), (''Brand'', Str ''X''),
                   (''COST'', Num (Fin 0)), (''MSRP'', Num (Fin 0))] k of Some v \<Rightarrow> v | None \<Rightarrow> Undefined)"
  by (simp add: apply_mapping_def main_map_upc_def scenario_main_upc_def scenario_main_def row_get_def
      fld_set_fld fld_mk_product)

lemma r1u_fields:
  "fld (sanitize_row whole_toString main_map_upc scenario_main_upc) ''Buy Box'' = Num (Fin 10)"
  "fld (sanitize_row whole_toString main_map_upc scenario_main_upc) ''Pick & Pack'' = Num (Fin 0)"
  "fld (sanitize_row whole_toString main_map_upc scenario_main_upc) ''Referral Fee &'' = Num (Fin 0)"
  "fld (sanitize_row whole_toString main_map_upc scenario_main_upc) ''Rating Count - Child'' = Num (Fin 0)"
  by (simp_all add: sanitize_row_numeric numeric_columns_def r1u_mapped_fields parse_defs)

lemma r1u_fields2:
  "fld (sanitize_row whole_toString main_map_upc scenario_main_upc) ''Brand'' = Str ''X''"
  by (simp_all add: fld_sanitize_row_other numeric_columns_def r1u_mapped_fields)

lemma clean_A1: "cleanProductCode ts (Str ''A1'') = ''A1''"
  by (simp add: cleanProductCode_def toLowerCase_def lower_unit_def upper_units_def lower_units_def
      trim_def is_space_def endsWith_def Let_def)

lemma r1u_code:
  "fld (sanitize_row whole_toString main_map_upc scenario_main_upc) ''Imported by Code'' = Str ''A1''"
  by (simp add: fld_sanitize_row_code clean_code_field_def r1u_mapped_fields fld_set_fld clean_A1)

lemma scenario_costMap:
  "build_costMap whole_toString [scenario_cost] cost_map ''A1'' = Some (Fin 4, Fin 15, [])"
proof -
  have keys: "costKey_of cost_map = ''Cost''" "msrpKey_of cost_map = ''MSRP''"
    "costFileUpcKey_of cost_map = ''UPC''"
    by (simp_all add: costKey_of_def msrpKey_of_def costFileUpcKey_of_def mapping_or_def cost_map_def)
  have cells: "row_get scenario_cost ''Cost'' = Str ''4.00''" "row_get scenario_cost ''MSRP'' = Str ''15.00''"
    "row_get scenario_cost ''UPC'' = Str ''A1''"
    by (simp_all add: row_get_def scenario_cost_def)
  have k: "cost_row_key whole_toString cost_map scenario_cost = Some ''A1''"
    by (simp add: cost_row_key_def keys cells clean_A1)
  have c: "cost_amount whole_toString (Str ''4.00'') = Fin 4"
    by (simp add: cost_amount_def num_or_def parse_defs)
  have m: "cost_amount whole_toString (Str ''15.00'') = Fin 15"
    by (simp add: cost_amount_def num_or_def parse_defs)
  have e: "extraKeys_of [scenario_cost] cost_map = []"
    by (simp add: extraKeys_of_def keys scenario_cost_def)
  have "cost_row_entry whole_toString [scenario_cost] cost_map scenario_cost = Some (Fin 4, Fin 15, [])"
    by (simp add: cost_row_entry_def keys cells c m e row_extras_def)
  then show ?thesis by (simp add: build_costMap_def add_cost_row_def k)
qed

lemma scenario_upc_result:
  "\<exists>r. fst (processData whole_toString unit_compare [scenario_main_upc] main_map_upc
               (Some [scenario_cost]) (Some cost_map) (Fin 1) (Fin (1 / 2))) = [r] \<and>
       fld r ''COST'' = Num (Fin (11 / 2)) \<and>
       fld r ''MSRP'' = Num (Fin 15) \<and>
       styles r ''COST'' = None \<and>
       fld r ''Price Used For BB Profit'' = Str ''10.00'' \<and>
       fld r ''Referral Fee &'' = Num (Fin (15 / 100)) \<and>
       fld r ''Pick & Pack'' = Num (Fin 7) \<and>
       fld r ''Profit'' = Num (Fin (- 4)) \<and>
       fld r ''ROI'' = Num (Fin (- 800 / 11))"
proof -
  let ?r1 = "sanitize_row whole_toString main_map_upc scenario_main_upc"
  let ?cm = "build_costMap whole_toString [scenario_cost] cost_map"
  let ?r2 = "merge_cost ?cm [scenario_cost] (Fin 1) (Fin (1 / 2)) ?r1"
  have hit: "cost_match ?cm ?r1 = Some (Fin 4, Fin 15, [])"
    by (simp add: cost_match_def r1u_code js_or_def scenario_costMap)
  have valid: "is_valid_row ?r1" by (simp add: is_valid_row_def r1u_fields2)
  have r2: "fld ?r2 ''Buy Box'' = Num (Fin 10)" "fld ?r2 ''Pick & Pack'' = Num (Fin 0)"
    "fld ?r2 ''Referral Fee &'' = Num (Fin 0)" "fld ?r2 ''Rating Count - Child'' = Num (Fin 0)"
    "fld ?r2 ''MSRP'' = Num (Fin 15)"
    by (simp_all add: merge_cost_hit(1) [OF hit] r1u_fields)
  have cost: "fld ?r2 ''COST'' = Num (Fin (11 / 2))"
    by (simp add: merge_cost_hit(1) [OF hit])
  have flag: "styles ?r2 ''COST'' = None" by (rule merge_cost_hit(2) [OF hit])
  have pos: "(0::real) < 10" "(11 / 2 :: real) \<noteq> 0" by simp_all
  note pf = process_item_fields [OF r2(1) pos(1) r2(2) r2(3) cost pos(2)]
  obtain maps pmr where res:
    "fst (processData whole_toString unit_compare [scenario_main_upc] main_map_upc
               (Some [scenario_cost]) (Some cost_map) (Fin 1) (Fin (1 / 2))) =
     [assign_row whole_toString maps pmr (process_item False ?r2)]"
    using processData_single [OF valid r2(4)] by blast
  show ?thesis
    unfolding res
    by (simp add: fld_assign_row styles_assign_row pf r2 flag toFixed2_10)
qed

lemma run_scenario_main:
  "run_scenario scenario_main =
     fst (processData whole_toString unit_compare [scenario_main] main_map
            (Some [scenario_cost]) (Some cost_map) (Fin 1) (Fin (1 / 2)))"
  by (simp add: run_scenario_def detect_main detect_cost)

lemma run_scenario_main_upc:
  "run_scenario scenario_main_upc =
     fst (processData whole_toString unit_compare [scenario_main_upc] main_map_upc
            (Some [scenario_cost]) (Some cost_map) (Fin 1) (Fin (1 / 2)))"
  by (simp add: run_scenario_def detect_main_upc detect_cost)

text \<open>
  C1, as the code has it. On the single-row input of the scenario with the auto-detected
  mappings, shipping 1 and misc 0.5, the pipeline returns one record. The main table has
  no identifier column, so \<open>Imported by Code\<close> is absent and the cost row (keyed by its UPC)
  is not joined: COST is 0 + 1 + 0.5 = 1.50 and is flagged \<open>No Cost Found\<close>, MSRP stays 0,
  the Buy Box price used is 10.00, the referral fee defaults to 0.15 and Pick and Pack to
  7.00, Profit is 10 * 0.85 - (1.50 + 7.00) = 0 and ROI is 0. When the main row also carries
  the identifier (a column UPC with A1), the record has the values of the claim: COST 5.50,
  MSRP 15, price used 10.00, referral fee 0.15, Pick and Pack 7.00, Profit -4 and
  ROI = 100 * (-4) / 5.50 = -800/11, which is -72.7 to one decimal.
\<close>

theorem end_to_end_scenario:
  "length (run_scenario scenario_main) = 1 \<and>
   fld (hd (run_scenario scenario_main)) ''COST'' = Num (Fin (3 / 2)) \<and>
   fld (hd (run_scenario scenario_main)) ''MSRP'' = Num (Fin 0) \<and>
   styles (hd (run_scenario scenario_main)) ''COST'' = Some (''FEE2E2'', ''No Cost Found'') \<and>
   fld (hd (run_scenario scenario_main)) ''Price Used For BB Profit'' = Str ''10.00'' \<and>
   fld (hd (run_scenario scenario_main)) ''Referral Fee &'' = Num (Fin (15 / 100)) \<and>
   fld (hd (run_scenario scenario_main)) ''Pick & Pack'' = Num (Fin 7) \<and>
   fld (hd (run_scenario scenario_main)) ''Profit'' = Num (Fin 0) \<and>
   fld (hd (run_scenario scenario_main)) ''ROI'' = Num (Fin 0) \<and>
   length (run_scenario scenario_main_upc) = 1 \<and>
   fld (hd (run_scenario scenario_main_upc)) ''COST'' = Num (Fin (11 / 2)) \<and>
   fld (hd (run_scenario scenario_main_upc)) ''MSRP'' = Num (Fin 15) \<and>
   styles (hd (run_scenario scenario_main_upc)) ''COST'' = None \<and>
   fld (hd (run_scenario scenario_main_upc)) ''Price Used For BB Profit'' = Str ''10.00'' \<and>
   fld (hd (run_scenario scenario_main_upc)) ''Referral Fee &'' = Num (Fin (15 / 100)) \<and>
   fld (hd (run_scenario scenario_main_upc)) ''Pick & Pack'' = Num (Fin 7) \<and>
   fld (hd (run_scenario scenario_main_upc)) ''Profit'' = Num (Fin (- 4)) \<and>
   fld (hd (run_scenario scenario_main_upc)) ''ROI'' = Num (Fin (- 800 / 11)) \<and>
   \<bar>- 800 / 11 - (- 727 / 10)\<bar> < (5 / 100 :: real)"
proof -
  obtain r where r: "run_scenario scenario_main = [r]"
      "fld r ''COST'' = Num (Fin (3 / 2))" "fld r ''MSRP'' = Num (Fin 0)"
      "styles r ''COST'' = Some (''FEE2E2'', ''No Cost Found'')"
      "fld r ''Price Used For BB Profit'' = Str ''10.00''"
      "fld r ''Referral Fee &'' = Num (Fin (15 / 100))" "fld r ''Pick & Pack'' = Num (Fin 7)"
      "fld r ''Profit'' = Num (Fin 0)" "fld r ''ROI'' = Num (Fin 0)"
    using scenario_result unfolding run_scenario_main by blast
  obtain u where u: "run_scenario scenario_main_upc = [u]"
      "fld u ''COST'' = Num (Fin (11 / 2))" "fld u ''MSRP'' = Num (Fin 15)"
      "styles u ''COST'' = None"
      "fld u ''Price Used For BB Profit'' = Str ''10.00''"
      "fld u ''Referral Fee &'' = Num (Fin (15 / 100))" "fld u ''Pick & Pack'' = Num (Fin 7)"
      "fld u ''Profit'' = Num (Fin (- 4))" "fld u ''ROI'' = Num (Fin (- 800 / 11))"
    using scenario_upc_result unfolding run_scenario_main_upc by blast
  have "\<bar>- 800 / 11 - (- 727 / 10)\<bar> < (5 / 100 :: real)" by simp
  then show ?thesis unfolding r(1) u(1) using r(2-) u(2-) by simp
qed

text \<open>
  The claim gives COST 5.50, Profit -4.0 and ROI about -72.7 for the scenario as written;
  the code gives COST 1.50, Profit 0 and ROI 0 there.
\<close>

theorem end_to_end_counterexample:
  "fld (hd (run_scenario scenario_main)) ''COST'' = Num (Fin (3 / 2)) \<and>
   fld (hd (run_scenario scenario_main)) ''Profit'' = Num (Fin 0) \<and>
   fld (hd (run_scenario scenario_main)) ''ROI'' = Num (Fin 0) \<and>
   (3 / 2 :: real) \<noteq> 11 / 2 \<and> (0 :: real) \<noteq> - 4"
proof -
  obtain r where "run_scenario scenario_main = [r]"
      "fld r ''COST'' = Num (Fin (3 / 2))" "fld r ''Profit'' = Num (Fin 0)" "fld r ''ROI'' = Num (Fin 0)"
    using scenario_result unfolding run_scenario_main by blast
  then show ?thesis by simp
qed


end
